theory Spec2Isabelle
  imports Main "HOL-Library.Sublist"
begin

section \<open>Values, exceptions and the world outside the handlers\<close>

text \<open>
  The three servers (\<^verbatim>\<open>server_original.py\<close>, \<^verbatim>\<open>server.py\<close>, \<^verbatim>\<open>server_dual.py\<close>) each
  define one \<^verbatim>\<open>POST /transcribe\<close> handler. A handler either returns a JSON body (FastAPI
  answers 200) or raises. JSON bodies are nested dictionaries of strings and booleans
  (\<open>JNull\<close> is \<^verbatim>\<open>None\<close>); a Python dict is an association list in insertion order.
\<close>

datatype json = JNull | JStr string | JBool bool | JObj "(string \<times> json) list"

type_synonym dict = "(string \<times> json) list"

text \<open>
  What a handler can raise. \<open>HTTPException status detail\<close> is FastAPI's; \<open>Exception m\<close>
  stands for any other instance of Python's \<^verbatim>\<open>Exception\<close> whose \<^verbatim>\<open>str()\<close> is \<open>m\<close>.
  The remaining three are the interpreter's own errors that the handlers can run into.
  An engine call or a file operation that raises is a value \<open>Inl m\<close>, with \<open>m\<close> the
  \<^verbatim>\<open>str()\<close> of the exception: that string is all the handlers ever read of it.
  Only subclasses of \<^verbatim>\<open>Exception\<close> are modelled (no \<^verbatim>\<open>KeyboardInterrupt\<close>, no
  task cancellation).
\<close>

datatype py_exception =
    HTTPException nat string
  | Exception string
  | UnboundLocalError string
  | AttributeError string
  | TypeError string

text \<open>The effects a handler has on the outside, in the order they happen.\<close>

datatype event =
    CreateTemp string
  | Unlink string
  | CallLocal string "string option"
  | CallOpenAI string "string option"

record world =
  files :: "string set"
  trace :: "event list"

text \<open>The dictionary \<^verbatim>\<open>whisper_model.transcribe\<close> returns: \<^verbatim>\<open>"text"\<close> and, possibly,
  \<^verbatim>\<open>"language"\<close>.\<close>

record whisper_result =
  result_text :: string
  result_language :: "string option"

text \<open>
  The module globals and the external collaborators. \<open>whisper_model\<close> and
  \<open>openai_client\<close> are the truth values of the two handles (\<^verbatim>\<open>None\<close> is false);
  \<^verbatim>\<open>server_dual.py\<close> calls the first one \<^verbatim>\<open>local_whisper_model\<close>.
  \<open>NamedTemporaryFile\<close> takes the upload's file name (the suffix is computed from it) and
  gives the path of the file it created, or raises. \<open>copyfileobj\<close> is \<open>Some m\<close> when
  copying the upload into the temporary file raises. The engines are opaque: what a call
  gives may depend on everything that happened before it (the trace), on the path and
  on the language argument.
\<close>

record env =
  whisper_model :: bool
  openai_client :: bool
  MODEL_SIZE :: string
  PRIMARY_ENGINE :: string
  FALLBACK_ENGINE :: string
  ENABLE_DUAL_ENGINE :: bool
  NamedTemporaryFile :: "string \<Rightarrow> string + string"
  copyfileobj :: "string option"
  whisper_transcribe :: "event list \<Rightarrow> string \<Rightarrow> string option \<Rightarrow> string + whisper_result"
  openai_transcribe :: "event list \<Rightarrow> string \<Rightarrow> string option \<Rightarrow> string + string"

abbreviation local_whisper_model :: "env \<Rightarrow> bool" where
  "local_whisper_model \<equiv> whisper_model"

text \<open>FastAPI's \<^verbatim>\<open>UploadFile\<close>: both attributes are optional strings.\<close>

record upload =
  content_type :: "string option"
  filename :: "string option"

section \<open>Python helpers\<close>

text \<open>\<^verbatim>\<open>d[k] = v\<close>: replaces the value of an existing key in place, appends a new key.\<close>

definition dict_set :: "dict \<Rightarrow> string \<Rightarrow> json \<Rightarrow> dict" where
  "dict_set d k v =
     (if k \<in> fst ` set d then map (\<lambda>(k', v'). if k' = k then (k', v) else (k', v')) d
      else d @ [(k, v)])"

text \<open>
  \<^verbatim>\<open>str.strip()\<close> removes the characters for which \<^verbatim>\<open>str.isspace\<close> holds from both
  ends. A \<open>char\<close> is read as a code point below 256; among those, \<^verbatim>\<open>str.isspace\<close>
  holds for 9 to 13, 28 to 32, 133 (U+0085) and 160 (U+00A0). Text with code points from
  256 on cannot be written as a \<open>string\<close> and is outside the model.
\<close>

definition isspace :: "char \<Rightarrow> bool" where
  "isspace c =
     (let n = of_char c :: nat
      in (9 \<le> n \<and> n \<le> 13) \<or> (28 \<le> n \<and> n \<le> 32) \<or> n = 133 \<or> n = 160)"

definition strip :: "string \<Rightarrow> string" where
  "strip s = rev (dropWhile isspace (rev (dropWhile isspace s)))"

section \<open>Language options\<close>

text \<open>
  All three servers build the same \<^verbatim>\<open>options\<close> dictionary
  (\<^verbatim>\<open>server.py\<close> lines 100 to 103, \<^verbatim>\<open>server_dual.py\<close> lines 166 to 169,
  \<^verbatim>\<open>server_original.py\<close> lines 74 to 82). \<open>options_language\<close> is
  \<^verbatim>\<open>options.get("language")\<close> afterwards.
\<close>

definition lang_map :: "string \<rightharpoonup> string" where
  "lang_map = map_of [(''en-IN'', ''en''), (''hi-IN'', ''hi''), (''gu-IN'', ''gu'')]"

definition options_language :: "string \<Rightarrow> string option" where
  "options_language language =
     (if language \<noteq> [] \<and> language \<noteq> ''auto''
      then Some (case lang_map language of Some code \<Rightarrow> code | None \<Rightarrow> language)
      else None)"

section \<open>Staging and cleanup\<close>

text \<open>
  \<^verbatim>\<open>with tempfile.NamedTemporaryFile(delete=False, suffix=Path(audio.filename).suffix)\<close>:
  the argument is evaluated first (\<^verbatim>\<open>Path(None)\<close> raises \<^verbatim>\<open>TypeError\<close>), then the file is
  created. Leaving the \<^verbatim>\<open>with\<close> block closes the file and, with \<^verbatim>\<open>delete=False\<close>,
  does not remove it.
\<close>

definition open_temp :: "env \<Rightarrow> upload \<Rightarrow> world \<Rightarrow> (py_exception + string) \<times> world" where
  "open_temp e audio w =
     (case filename audio of
        None \<Rightarrow> (Inl (TypeError ''expected str, bytes or os.PathLike object, not NoneType''), w)
      | Some name \<Rightarrow>
          (case NamedTemporaryFile e name of
             Inl m \<Rightarrow> (Inl (Exception m), w)
           | Inr p \<Rightarrow> (Inr p, w\<lparr>files := insert p (files w), trace := trace w @ [CreateTemp p]\<rparr>)))"

text \<open>
  The \<^verbatim>\<open>finally\<close> block of every handler:
  \<^verbatim>\<open>if os.path.exists(temp_path): os.unlink(temp_path)\<close>.
  The first argument is the local variable \<^verbatim>\<open>temp_path\<close>, \<open>None\<close> while it is unbound:
  reading it then raises \<^verbatim>\<open>UnboundLocalError\<close> (with the message of Python 3.11 and
  later), which replaces whatever the \<^verbatim>\<open>try\<close> block was about to return or raise.
\<close>

definition finally_unlink ::
  "string option \<Rightarrow> (py_exception + json) \<times> world \<Rightarrow> (py_exception + json) \<times> world" where
  "finally_unlink temp_path rw =
     (case temp_path of
        None \<Rightarrow>
          (Inl (UnboundLocalError ''cannot access local variable 'temp_path' where it is not associated with a value''), snd rw)
      | Some p \<Rightarrow>
          (fst rw,
           if p \<in> files (snd rw)
           then (snd rw)\<lparr>files := files (snd rw) - {p}, trace := trace (snd rw) @ [Unlink p]\<rparr>
           else snd rw))"

section \<open>\<^verbatim>\<open>server_dual.py\<close>\<close>

text \<open>Lines 164 to 179.\<close>

definition transcribe_with_local_whisper ::
  "env \<Rightarrow> string \<Rightarrow> string \<Rightarrow> world \<Rightarrow> (string + dict) \<times> world" where
  "transcribe_with_local_whisper e temp_path language w =
     (let options = options_language language;
          w' = w\<lparr>trace := trace w @ [CallLocal temp_path options]\<rparr>
      in case whisper_transcribe e (trace w) temp_path options of
           Inl m \<Rightarrow> (Inl m, w')
         | Inr result \<Rightarrow>
             (Inr [(''text'', JStr (strip (result_text result))),
                   (''language_detected'',
                      JStr (case result_language result of Some l \<Rightarrow> l | None \<Rightarrow> ''unknown'')),
                   (''confidence'', JStr ''N/A''),
                   (''engine'', JStr ''local_whisper''),
                   (''model_size'', JStr (MODEL_SIZE e))], w'))"

text \<open>Lines 181 to 196. The language is handed to the API as it came, unless it is
  \<^verbatim>\<open>"auto"\<close>; \<^verbatim>\<open>lang_map\<close> is not consulted here.\<close>

definition transcribe_with_openai ::
  "env \<Rightarrow> string \<Rightarrow> string \<Rightarrow> world \<Rightarrow> (string + dict) \<times> world" where
  "transcribe_with_openai e temp_path language w =
     (let lang = (if language \<noteq> ''auto'' then Some language else None);
          w' = w\<lparr>trace := trace w @ [CallOpenAI temp_path lang]\<rparr>
      in case openai_transcribe e (trace w) temp_path lang of
           Inl m \<Rightarrow> (Inl m, w')
         | Inr transcript_text \<Rightarrow>
             (Inr [(''text'', JStr (strip transcript_text)),
                   (''language_detected'',
                      JStr (if language \<noteq> ''auto'' then language else ''auto-detected'')),
                   (''confidence'', JStr ''N/A''),
                   (''engine'', JStr ''openai_whisper''),
                   (''model'', JStr ''whisper-1'')], w'))"

text \<open>Lines 100 to 112: which engine the request is sent to first.\<close>

definition select_engine :: "env \<Rightarrow> string \<Rightarrow> py_exception + string" where
  "select_engine e engine =
     (if engine = ''auto'' then
        (if PRIMARY_ENGINE e = ''local_whisper'' \<and> local_whisper_model e then Inr ''local_whisper''
         else if PRIMARY_ENGINE e = ''openai_whisper'' \<and> openai_client e then Inr ''openai_whisper''
         else if local_whisper_model e then Inr ''local_whisper''
         else if openai_client e then Inr ''openai_whisper''
         else Inl (HTTPException 503 ''No transcription engines available''))
      else Inr (engine @ ''_whisper''))"

text \<open>Lines 124 to 129 and, with the other message, lines 142 to 147: the adapter of the
  named engine is called if its handle is set; otherwise an \<^verbatim>\<open>Exception\<close> is raised.
  \<open>label\<close> is \<open>''Engine''\<close> in the first block and \<open>''Fallback engine''\<close> in the second.\<close>

definition run_engine ::
  "string \<Rightarrow> env \<Rightarrow> string \<Rightarrow> string \<Rightarrow> string \<Rightarrow> world \<Rightarrow> (string + dict) \<times> world" where
  "run_engine label e name temp_path language w =
     (if name = ''local_whisper'' \<and> local_whisper_model e
        then transcribe_with_local_whisper e temp_path language w
      else if name = ''openai_whisper'' \<and> openai_client e
        then transcribe_with_openai e temp_path language w
      else (Inl (label @ '' '' @ name @ '' not available''), w))"

text \<open>Lines 122 to 157: the body of the \<^verbatim>\<open>try\<close> block after staging.\<close>

definition primary_then_fallback ::
  "env \<Rightarrow> string \<Rightarrow> string \<Rightarrow> string \<Rightarrow> world \<Rightarrow> (py_exception + json) \<times> world" where
  "primary_then_fallback e selected_engine temp_path language w =
     (case run_engine ''Engine'' e selected_engine temp_path language w of
        (Inr result, w1) \<Rightarrow>
          (Inr (JObj (dict_set result ''engine_used'' (JStr selected_engine))), w1)
      | (Inl primary_error, w1) \<Rightarrow>
          if ENABLE_DUAL_ENGINE e \<and> FALLBACK_ENGINE e \<noteq> []
          then
            (case run_engine ''Fallback engine'' e (FALLBACK_ENGINE e) temp_path language w1 of
               (Inr result, w2) \<Rightarrow>
                 (Inr (JObj (dict_set
                         (dict_set result ''engine_used''
                            (JStr (FALLBACK_ENGINE e @ '' (fallback)'')))
                         ''primary_engine_error'' (JStr primary_error))), w2)
             | (Inl fallback_error, w2) \<Rightarrow>
                 (Inl (HTTPException 500
                         (''Both engines failed. Primary: '' @ primary_error
                            @ '', Fallback: '' @ fallback_error)), w2))
          else (Inl (HTTPException 500 (''Transcription failed: '' @ primary_error)), w1))"

text \<open>Lines 88 to 162, the handler. \<^verbatim>\<open>audio.content_type.startswith\<close> raises
  \<^verbatim>\<open>AttributeError\<close> on \<^verbatim>\<open>None\<close>. \<^verbatim>\<open>temp_path\<close> is assigned after \<^verbatim>\<open>copyfileobj\<close>
  returns, so it is unbound in the \<^verbatim>\<open>finally\<close> block when the copy raises.\<close>

definition transcribe_audio_dual ::
  "env \<Rightarrow> upload \<Rightarrow> string \<Rightarrow> string \<Rightarrow> world \<Rightarrow> (py_exception + json) \<times> world" where
  "transcribe_audio_dual e audio language engine w =
     (case content_type audio of
        None \<Rightarrow> (Inl (AttributeError ('''NoneType' object has no attribute 'startswith'' @ [CHR 0x27])), w)
      | Some ct \<Rightarrow>
          if \<not> prefix ''audio/'' ct
          then (Inl (HTTPException 400 ''File must be an audio file''), w)
          else
            (case select_engine e engine of
               Inl ex \<Rightarrow> (Inl ex, w)
             | Inr selected_engine \<Rightarrow>
                 (case open_temp e audio w of
                    (Inl ex, w0) \<Rightarrow> (Inl ex, w0)
                  | (Inr p, w0) \<Rightarrow>
                      (case copyfileobj e of
                         Some m \<Rightarrow> finally_unlink None (Inl (Exception m), w0)
                       | None \<Rightarrow>
                           finally_unlink (Some p)
                             (primary_then_fallback e selected_engine p language w0)))))"

section \<open>\<^verbatim>\<open>server.py\<close>\<close>

text \<open>Lines 107 to 126: the local engine's entry of \<^verbatim>\<open>results\<close>. An exception of the
  engine is caught here and becomes an entry with status \<^verbatim>\<open>"error"\<close>.\<close>

definition local_step ::
  "env \<Rightarrow> string \<Rightarrow> string \<Rightarrow> string option \<Rightarrow> dict \<times> world \<Rightarrow> dict \<times> world" where
  "local_step e engines temp_path options rw =
     (let results = fst rw; w = snd rw in
      if engines \<in> set [''both'', ''local''] \<and> whisper_model e then
        (let w' = w\<lparr>trace := trace w @ [CallLocal temp_path options]\<rparr> in
         case whisper_transcribe e (trace w) temp_path options of
           Inr local_result \<Rightarrow>
             (dict_set results ''local_whisper''
                (JObj [(''text'', JStr (strip (result_text local_result))),
                       (''language_detected'',
                          JStr (case result_language local_result of
                                  Some l \<Rightarrow> l | None \<Rightarrow> ''unknown'')),
                       (''confidence'', JStr ''N/A''),
                       (''engine'', JStr ''local_whisper''),
                       (''model_size'', JStr (MODEL_SIZE e)),
                       (''status'', JStr ''success'')]), w')
         | Inl m \<Rightarrow>
             (dict_set results ''local_whisper''
                (JObj [(''text'', JStr (''Local Whisper failed: '' @ m)),
                       (''status'', JStr ''error''),
                       (''engine'', JStr ''local_whisper'')]), w'))
      else (results, w))"

text \<open>Lines 128 to 159: the OpenAI entry. The language handed to the API is
  \<^verbatim>\<open>options.get("language") if options.get("language") else None\<close>; opening the staged
  file is part of the call. Without a client the entry has status
  \<^verbatim>\<open>"not_configured"\<close>.\<close>

definition openai_step ::
  "env \<Rightarrow> string \<Rightarrow> string \<Rightarrow> string option \<Rightarrow> dict \<times> world \<Rightarrow> dict \<times> world" where
  "openai_step e engines temp_path options rw =
     (let results = fst rw; w = snd rw in
      if engines \<in> set [''both'', ''openai''] \<and> openai_client e then
        (let lang = (case options of Some l \<Rightarrow> if l \<noteq> [] then Some l else None | None \<Rightarrow> None);
             w' = w\<lparr>trace := trace w @ [CallOpenAI temp_path lang]\<rparr> in
         case openai_transcribe e (trace w) temp_path lang of
           Inr transcript_text \<Rightarrow>
             (dict_set results ''openai_whisper''
                (JObj [(''text'', JStr (strip transcript_text)),
                       (''language_detected'',
                          JStr (case options of Some l \<Rightarrow> l | None \<Rightarrow> ''auto-detected'')),
                       (''confidence'', JStr ''N/A''),
                       (''engine'', JStr ''openai_whisper''),
                       (''model'', JStr ''whisper-1''),
                       (''status'', JStr ''success'')]), w')
         | Inl m \<Rightarrow>
             (dict_set results ''openai_whisper''
                (JObj [(''text'', JStr (''OpenAI Whisper failed: '' @ m)),
                       (''status'', JStr ''error''),
                       (''engine'', JStr ''openai_whisper'')]), w'))
      else if engines \<in> set [''both'', ''openai''] \<and> \<not> openai_client e then
        (dict_set results ''openai_whisper''
           (JObj [(''text'', JStr ''OpenAI not configured - add API key to python/.env''),
                  (''status'', JStr ''not_configured''),
                  (''engine'', JStr ''openai_whisper'')]), w)
      else (results, w))"

text \<open>Lines 161 to 172: what is returned.\<close>

definition response :: "string \<Rightarrow> string option \<Rightarrow> dict \<Rightarrow> json" where
  "response engines name results =
     (case (if engines = ''local'' then map_of results ''local_whisper'' else None) of
        Some entry \<Rightarrow> entry
      | None \<Rightarrow>
          (case (if engines = ''openai'' then map_of results ''openai_whisper'' else None) of
             Some entry \<Rightarrow> entry
           | None \<Rightarrow>
               JObj [(''engines'', JObj results),
                     (''dual_mode'', JBool True),
                     (''filename'', (case name of Some n \<Rightarrow> JStr n | None \<Rightarrow> JNull))]))"

text \<open>Lines 97 to 172: the body of the \<^verbatim>\<open>try\<close> block after staging. Nothing in it
  raises: both engine calls are wrapped.\<close>

definition transcribe_both ::
  "env \<Rightarrow> string option \<Rightarrow> string \<Rightarrow> string \<Rightarrow> string \<Rightarrow> world
     \<Rightarrow> (py_exception + json) \<times> world" where
  "transcribe_both e name language engines temp_path w =
     (let options = options_language language;
          rw = openai_step e engines temp_path options
                 (local_step e engines temp_path options ([], w))
      in (Inr (response engines name (fst rw)), snd rw))"

text \<open>Lines 77 to 176, the handler. The model check comes first, before the content
  type is looked at.\<close>

definition transcribe_audio ::
  "env \<Rightarrow> upload \<Rightarrow> string \<Rightarrow> string \<Rightarrow> world \<Rightarrow> (py_exception + json) \<times> world" where
  "transcribe_audio e audio language engines w =
     (if \<not> whisper_model e
      then (Inl (HTTPException 503 ''Whisper model not loaded''), w)
      else
        (case content_type audio of
           None \<Rightarrow> (Inl (AttributeError ('''NoneType' object has no attribute 'startswith'' @ [CHR 0x27])), w)
         | Some ct \<Rightarrow>
             if \<not> prefix ''audio/'' ct
             then (Inl (HTTPException 400 ''File must be an audio file''), w)
             else
               (case open_temp e audio w of
                  (Inl ex, w0) \<Rightarrow> (Inl ex, w0)
                | (Inr p, w0) \<Rightarrow>
                    (case copyfileobj e of
                       Some m \<Rightarrow> finally_unlink None (Inl (Exception m), w0)
                     | None \<Rightarrow>
                         finally_unlink (Some p)
                           (transcribe_both e (filename audio) language engines p w0)))))"

section \<open>\<^verbatim>\<open>server_original.py\<close>\<close>

text \<open>Lines 50 to 106. Here the \<^verbatim>\<open>try\<close> block has an \<^verbatim>\<open>except Exception\<close> clause that
  turns every exception, of the copy as well as of the engine, into a 500; the
  \<^verbatim>\<open>finally\<close> block is the same as in the other two servers.\<close>

definition transcribe_audio_original ::
  "env \<Rightarrow> upload \<Rightarrow> string \<Rightarrow> world \<Rightarrow> (py_exception + json) \<times> world" where
  "transcribe_audio_original e audio language w =
     (if \<not> whisper_model e
      then (Inl (HTTPException 503 ''Whisper model not loaded''), w)
      else
        (case content_type audio of
           None \<Rightarrow> (Inl (AttributeError ('''NoneType' object has no attribute 'startswith'' @ [CHR 0x27])), w)
         | Some ct \<Rightarrow>
             if \<not> prefix ''audio/'' ct
             then (Inl (HTTPException 400 ''File must be an audio file''), w)
             else
               (case open_temp e audio w of
                  (Inl ex, w0) \<Rightarrow> (Inl ex, w0)
                | (Inr p, w0) \<Rightarrow>
                    (case copyfileobj e of
                       Some m \<Rightarrow>
                         finally_unlink None
                           (Inl (HTTPException 500 (''Transcription failed: '' @ m)), w0)
                     | None \<Rightarrow>
                         finally_unlink (Some p)
                           (let options = options_language language;
                                w1 = w0\<lparr>trace := trace w0 @ [CallLocal p options]\<rparr>
                            in case whisper_transcribe e (trace w0) p options of
                                 Inl m \<Rightarrow>
                                   (Inl (HTTPException 500 (''Transcription failed: '' @ m)), w1)
                               | Inr result \<Rightarrow>
                                   (Inr (JObj
                                      [(''text'', JStr (strip (result_text result))),
                                       (''language_detected'',
                                          JStr (case result_language result of
                                                  Some l \<Rightarrow> l | None \<Rightarrow> ''unknown'')),
                                       (''confidence'', JStr ''N/A''),
                                       (''engine'', JStr ''whisper''),
                                       (''model_size'', JStr (MODEL_SIZE e))]), w1))))))"

section \<open>Which engines a name stands for\<close>

text \<open>The world right after the temporary file \<open>p\<close> has been created.\<close>

abbreviation staged :: "world \<Rightarrow> string \<Rightarrow> world" where
  "staged w p \<equiv> w\<lparr>files := insert p (files w), trace := trace w @ [CreateTemp p]\<rparr>"


text \<open>The two conditions under which \<open>run_engine\<close> calls an adapter: the name is one of
  the two engine names and that engine's handle is set.\<close>

definition is_available :: "env \<Rightarrow> string \<Rightarrow> bool" where
  "is_available e name =
     ((name = ''local_whisper'' \<and> local_whisper_model e)
      \<or> (name = ''openai_whisper'' \<and> openai_client e))"

text \<open>The event an adapter of \<^verbatim>\<open>server_dual.py\<close> leaves in the trace when it is called
  with this path and language.\<close>

definition call_of :: "string \<Rightarrow> string \<Rightarrow> string \<Rightarrow> event" where
  "call_of name temp_path language =
     (if name = ''local_whisper'' then CallLocal temp_path (options_language language)
      else CallOpenAI temp_path (if language \<noteq> ''auto'' then Some language else None))"

text \<open>A handler's outcome that the client sees as an answer of the handler itself: a
  body (200) or an \<^verbatim>\<open>HTTPException\<close>.\<close>

definition answered :: "py_exception + json \<Rightarrow> bool" where
  "answered r = (case r of Inr body \<Rightarrow> True | Inl (HTTPException code detail) \<Rightarrow> True | Inl _ \<Rightarrow> False)"

section \<open>Concrete inputs\<close>

text \<open>A process with the defaults of \<^verbatim>\<open>server_dual.py\<close> (primary \<^verbatim>\<open>local_whisper\<close>,
  fallback \<^verbatim>\<open>openai_whisper\<close>, dual engine enabled), both engines up and answering, a
  file system that works; a WAV upload; and a world with no files and no history.\<close>

definition env0 :: env where
  "env0 = \<lparr>whisper_model = True, openai_client = True, MODEL_SIZE = ''base'',
      PRIMARY_ENGINE = ''local_whisper'', FALLBACK_ENGINE = ''openai_whisper'',
      ENABLE_DUAL_ENGINE = True,
      NamedTemporaryFile = (\<lambda>name. Inr ''/tmp/tmpa.wav''),
      copyfileobj = None,
      whisper_transcribe =
        (\<lambda>tr p l. Inr \<lparr>result_text = '' hello '', result_language = Some ''en''\<rparr>),
      openai_transcribe = (\<lambda>tr p l. Inr ''hello'')\<rparr>"

definition wav :: upload where
  "wav = \<lparr>content_type = Some ''audio/wav'', filename = Some ''a.wav''\<rparr>"

definition w_init :: world where
  "w_init = \<lparr>files = {}, trace = []\<rparr>"

text \<open>The same process with both engines raising on every call, and that one with the
  fallback switched off.\<close>

definition env_failing :: env where
  "env_failing = env0\<lparr>whisper_transcribe := (\<lambda>tr p l. Inl ''CUDA out of memory''),
                       openai_transcribe := (\<lambda>tr p l. Inl ''Connection error.'')\<rparr>"

definition env_failing_single :: env where
  "env_failing_single = env_failing\<lparr>ENABLE_DUAL_ENGINE := False\<rparr>"

text \<open>The same process with only the local engine raising.\<close>

definition env_local_fails :: env where
  "env_local_fails = env0\<lparr>whisper_transcribe := (\<lambda>tr p l. Inl ''CUDA out of memory'')\<rparr>"

text \<open>The same process with only the OpenAI engine raising.\<close>

definition env_openai_fails :: env where
  "env_openai_fails = env0\<lparr>openai_transcribe := (\<lambda>tr p l. Inl ''Connection error.'')\<rparr>"

section \<open>Facts about the helpers\<close>

lemma map_of_dict_set:
  "map_of (dict_set d k v) k' = (if k' = k then Some v else map_of d k')"
proof (cases "k \<in> fst ` set d")
  case True
  have "map_of (map (\<lambda>(a, b). if a = k then (a, v) else (a, b)) d) k'
          = (if k' = k then (if k \<in> fst ` set d then Some v else None) else map_of d k')"
    by (induction d) (auto split: if_splits)
  with True show ?thesis by (simp add: dict_set_def)
next
  case False
  then have "map_of d k = None" by (simp add: map_of_eq_None_iff)
  with False show ?thesis by (auto simp: dict_set_def map_add_def split: option.splits)
qed

text \<open>The language table as the servers apply it to the local engine: the three locale
  tags, the two ways of asking for auto-detection, and every other tag unchanged.\<close>

lemma options_language_table:
  "options_language ''en-IN'' = Some ''en''"
  "options_language ''hi-IN'' = Some ''hi''"
  "options_language ''gu-IN'' = Some ''gu''"
  by (simp_all add: options_language_def lang_map_def)

lemma options_language_auto:
  "options_language ''auto'' = None" "options_language [] = None"
  by (simp_all add: options_language_def)

lemma options_language_passthrough:
  "language \<notin> {[], ''auto'', ''en-IN'', ''hi-IN'', ''gu-IN''} \<Longrightarrow>
     options_language language = Some language"
  by (simp add: options_language_def lang_map_def)

lemma openai_language_of_options:
  "(case options_language l of Some c \<Rightarrow> if c \<noteq> [] then Some c else None | None \<Rightarrow> None)
     = options_language l"
  by (auto simp: options_language_def lang_map_def split: option.splits if_splits)

text \<open>No engine call and no step of a handler creates or removes a file; the
  \<^verbatim>\<open>finally\<close> block removes the staged one once \<^verbatim>\<open>temp_path\<close> is bound.\<close>

lemma files_adapters [simp]:
  "files (snd (transcribe_with_local_whisper e p l w)) = files w"
  "files (snd (transcribe_with_openai e p l w)) = files w"
  by (simp_all add: transcribe_with_local_whisper_def transcribe_with_openai_def Let_def
      split: sum.splits)

lemma files_run_engine [simp]: "files (snd (run_engine label e name p l w)) = files w"
  by (simp add: run_engine_def)

lemma run_engine_files:
  "run_engine label e name p l w = (r, w') \<Longrightarrow> files w' = files w"
  using files_run_engine [of label e name p l w] by simp

lemma files_primary_then_fallback [simp]:
  "files (snd (primary_then_fallback e s p l w)) = files w"
  by (auto simp: primary_then_fallback_def split: prod.splits sum.splits
      dest!: run_engine_files)

lemma files_steps [simp]:
  "files (snd (local_step e g p opts rw)) = files (snd rw)"
  "files (snd (openai_step e g p opts rw)) = files (snd rw)"
  by (simp_all add: local_step_def openai_step_def Let_def split: sum.splits)

lemma finally_unlink_removes [simp]: "p \<notin> files (snd (finally_unlink (Some p) rw))"
  by (simp add: finally_unlink_def)

lemma fst_finally_unlink [simp]: "fst (finally_unlink (Some p) rw) = fst rw"
  by (simp add: finally_unlink_def)

lemma answered_simps [simp]:
  "answered (Inr body)" "answered (Inl (HTTPException code detail))"
  by (simp_all add: answered_def)

lemma answered_primary_then_fallback:
  "answered (fst (primary_then_fallback e s p l w))"
  by (simp add: primary_then_fallback_def split: prod.splits sum.splits)

text \<open>\<open>run_engine\<close> with and without the named engine, and the dispatch of
  \<^verbatim>\<open>server_dual.py\<close> when the engine selected first is not available.\<close>

lemma run_engine_unavailable:
  "\<not> is_available e name \<Longrightarrow>
     run_engine label e name p l w = (Inl (label @ '' '' @ name @ '' not available''), w)"
  by (auto simp: run_engine_def is_available_def)

lemma run_engine_available:
  "is_available e name \<Longrightarrow>
     run_engine label e name p l w
       = (if name = ''local_whisper'' then transcribe_with_local_whisper e p l w
          else transcribe_with_openai e p l w)"
  by (auto simp: run_engine_def is_available_def)

lemma trace_run_engine_available:
  "is_available e name \<Longrightarrow>
     trace (snd (run_engine label e name p l w)) = trace w @ [call_of name p l]"
  by (auto simp: run_engine_available call_of_def transcribe_with_local_whisper_def
      transcribe_with_openai_def Let_def split: sum.splits)

lemma trace_finally_unlink:
  "trace (snd (finally_unlink (Some p) rw))
     = (if p \<in> files (snd rw) then trace (snd rw) @ [Unlink p] else trace (snd rw))"
  by (simp add: finally_unlink_def)

lemma dual_staged_unfold:
  assumes "content_type audio = Some ct" "prefix ''audio/'' ct" "filename audio = Some name"
    and "NamedTemporaryFile e name = Inr p" "copyfileobj e = None"
    and "select_engine e engine = Inr s"
  shows "transcribe_audio_dual e audio language engine w
           = finally_unlink (Some p) (primary_then_fallback e s p language (staged w p))"
  using assms by (simp add: transcribe_audio_dual_def open_temp_def)

lemma primary_unavailable_no_fallback:
  assumes "\<not> is_available e s" "\<not> (ENABLE_DUAL_ENGINE e \<and> FALLBACK_ENGINE e \<noteq> [])"
  shows "primary_then_fallback e s p l w
     = (Inl (HTTPException 500 (''Transcription failed: '' @ ''Engine '' @ s @ '' not available'')),
        w)"
  using assms by (auto simp: primary_then_fallback_def run_engine_unavailable)

lemma primary_unavailable_fallback:
  assumes "\<not> is_available e s" "ENABLE_DUAL_ENGINE e" "FALLBACK_ENGINE e \<noteq> []"
    and "run_engine ''Fallback engine'' e (FALLBACK_ENGINE e) p l w = (r2, w2)"
  shows "primary_then_fallback e s p l w
     = (case r2 of
          Inr result \<Rightarrow>
            Inr (JObj (dict_set
                   (dict_set result ''engine_used'' (JStr (FALLBACK_ENGINE e @ '' (fallback)'')))
                   ''primary_engine_error'' (JStr (''Engine '' @ s @ '' not available''))))
        | Inl fallback_error \<Rightarrow>
            Inl (HTTPException 500
                   (''Both engines failed. Primary: '' @ ''Engine '' @ s @ '' not available''
                      @ '', Fallback: '' @ fallback_error)),
        w2)"
  using assms
  by (simp add: primary_then_fallback_def run_engine_unavailable split: sum.splits)

lemma is_available_nonempty: "is_available e name \<Longrightarrow> name \<noteq> []"
  by (auto simp: is_available_def)

lemma select_engine_explicit:
  "engine \<noteq> ''auto'' \<Longrightarrow> select_engine e engine = Inr (engine @ ''_whisper'')"
  by (simp add: select_engine_def)

lemma unknown_engine_unavailable:
  "engine \<notin> {''local'', ''openai''} \<Longrightarrow> \<not> is_available e (engine @ ''_whisper'')"
  by (auto simp: is_available_def)

lemma select_engine_auto_available:
  "select_engine e ''auto'' = Inr s \<Longrightarrow> is_available e s"
  by (auto simp: select_engine_def is_available_def split: if_splits)

text \<open>What each handler makes of an engine that raises, once the payload is staged.\<close>

lemma dual_primary_raises:
  assumes "content_type audio = Some ct" "prefix ''audio/'' ct" "filename audio = Some name"
    and "NamedTemporaryFile e name = Inr p" "copyfileobj e = None"
    and "select_engine e engine = Inr s"
    and "run_engine ''Engine'' e s p language (staged w p) = (Inl m, w1)"
  shows "fst (transcribe_audio_dual e audio language engine w)
     = (if ENABLE_DUAL_ENGINE e \<and> FALLBACK_ENGINE e \<noteq> []
        then (case run_engine ''Fallback engine'' e (FALLBACK_ENGINE e) p language w1 of
                (Inr result, w2) \<Rightarrow>
                  Inr (JObj (dict_set
                         (dict_set result ''engine_used''
                            (JStr (FALLBACK_ENGINE e @ '' (fallback)'')))
                         ''primary_engine_error'' (JStr m)))
              | (Inl fallback_error, w2) \<Rightarrow>
                  Inl (HTTPException 500
                         (''Both engines failed. Primary: '' @ m
                            @ '', Fallback: '' @ fallback_error)))
        else Inl (HTTPException 500 (''Transcription failed: '' @ m)))"
  using assms(7)
  by (simp add: dual_staged_unfold [OF assms(1-6)] primary_then_fallback_def
      split: prod.splits sum.splits)

lemma dual_primary_returns:
  assumes "content_type audio = Some ct" "prefix ''audio/'' ct" "filename audio = Some name"
    and "NamedTemporaryFile e name = Inr p" "copyfileobj e = None"
    and "select_engine e engine = Inr s"
    and "run_engine ''Engine'' e s p language (staged w p) = (Inr result, w1)"
  shows "fst (transcribe_audio_dual e audio language engine w)
     = Inr (JObj (dict_set result ''engine_used'' (JStr s)))"
  using assms(7)
  by (simp add: dual_staged_unfold [OF assms(1-6)] primary_then_fallback_def)

lemma adapters_raise:
  "whisper_transcribe e (trace w0) q (options_language language) = Inl m \<Longrightarrow>
     fst (transcribe_with_local_whisper e q language w0) = Inl m"
  "openai_transcribe e (trace w0) q (if language \<noteq> ''auto'' then Some language else None)
       = Inl m \<Longrightarrow>
     fst (transcribe_with_openai e q language w0) = Inl m"
  by (simp_all add: transcribe_with_local_whisper_def transcribe_with_openai_def Let_def)

lemma original_engine_raises:
  assumes "content_type audio = Some ct" "prefix ''audio/'' ct" "filename audio = Some name"
    and "NamedTemporaryFile e name = Inr p" "copyfileobj e = None"
    and "whisper_model e"
    and "whisper_transcribe e (trace w @ [CreateTemp p]) p (options_language language) = Inl m"
  shows "fst (transcribe_audio_original e audio language w)
           = Inl (HTTPException 500 (''Transcription failed: '' @ m))"
  using assms by (simp add: transcribe_audio_original_def open_temp_def Let_def)

lemma server_local_raises:
  assumes "content_type audio = Some ct" "prefix ''audio/'' ct" "filename audio = Some name"
    and "NamedTemporaryFile e name = Inr p" "copyfileobj e = None"
    and "whisper_model e"
    and "whisper_transcribe e (trace w @ [CreateTemp p]) p (options_language language) = Inl m"
  shows "fst (transcribe_audio e audio language ''local'' w)
           = Inr (JObj [(''text'', JStr (''Local Whisper failed: '' @ m)),
                        (''status'', JStr ''error''),
                        (''engine'', JStr ''local_whisper'')])"
    and "\<exists>oe. fst (transcribe_audio e audio language ''both'' w)
           = Inr (JObj [(''engines'',
                          JObj [(''local_whisper'',
                                   JObj [(''text'', JStr (''Local Whisper failed: '' @ m)),
                                         (''status'', JStr ''error''),
                                         (''engine'', JStr ''local_whisper'')]),
                                (''openai_whisper'', oe)]),
                        (''dual_mode'', JBool True),
                        (''filename'', JStr name)])"
  using assms
  by (auto simp: transcribe_audio_def open_temp_def transcribe_both_def local_step_def
      openai_step_def response_def dict_set_def Let_def split: sum.splits)

lemma server_openai_raises:
  assumes "content_type audio = Some ct" "prefix ''audio/'' ct" "filename audio = Some name"
    and "NamedTemporaryFile e name = Inr p" "copyfileobj e = None"
    and "whisper_model e" "openai_client e"
  shows "openai_transcribe e (trace w @ [CreateTemp p]) p (options_language language) = Inl m \<Longrightarrow>
         fst (transcribe_audio e audio language ''openai'' w)
           = Inr (JObj [(''text'', JStr (''OpenAI Whisper failed: '' @ m)),
                        (''status'', JStr ''error''),
                        (''engine'', JStr ''openai_whisper'')])"
    and "openai_transcribe e (trace w @ [CreateTemp p, CallLocal p (options_language language)])
             p (options_language language) = Inl m \<Longrightarrow>
         \<exists>le. fst (transcribe_audio e audio language ''both'' w)
           = Inr (JObj [(''engines'',
                          JObj [(''local_whisper'', le),
                                (''openai_whisper'',
                                   JObj [(''text'', JStr (''OpenAI Whisper failed: '' @ m)),
                                         (''status'', JStr ''error''),
                                         (''engine'', JStr ''openai_whisper'')])]),
                        (''dual_mode'', JBool True),
                        (''filename'', JStr name)])"
  using assms
  by (auto simp: transcribe_audio_def open_temp_def transcribe_both_def local_step_def
      openai_step_def response_def dict_set_def Let_def openai_language_of_options
      split: sum.splits)

section \<open>The model check of \<^verbatim>\<open>server.py\<close>\<close>

text \<open>
  C10. In \<^verbatim>\<open>server.py\<close> a request is answered with 503 whenever the local model is not
  loaded, whatever \<^verbatim>\<open>engines\<close> asks for and whatever the upload is: the check is the
  first statement of the handler, so the content type is not looked at and nothing is
  staged (the world is returned as it was). The instance below is a request for
  \<^verbatim>\<open>engines="openai"\<close> while the OpenAI client is available.
\<close>

theorem model_not_loaded_503:
  "\<not> whisper_model e \<Longrightarrow>
     transcribe_audio e audio language engines w
       = (Inl (HTTPException 503 ''Whisper model not loaded''), w)"
  by (simp add: transcribe_audio_def)

theorem model_not_loaded_503_witness:
  "\<not> whisper_model (env0\<lparr>whisper_model := False\<rparr>)
   \<and> openai_client (env0\<lparr>whisper_model := False\<rparr>)
   \<and> transcribe_audio (env0\<lparr>whisper_model := False\<rparr>) wav ''auto'' ''openai'' w_init
       = (Inl (HTTPException 503 ''Whisper model not loaded''), w_init)"
  using model_not_loaded_503 [of "env0\<lparr>whisper_model := False\<rparr>" wav "''auto''" "''openai''" w_init]
  by (simp add: env0_def)

section \<open>The language handed to each engine\<close>

text \<open>
  C9. The table itself is as the claim has it (\<open>options_language_table\<close>,
  \<open>options_language_auto\<close>, \<open>options_language_passthrough\<close>), but in
  \<^verbatim>\<open>server_dual.py\<close> only the local adapter applies it. For the language \<^verbatim>\<open>"en-IN"\<close> the
  OpenAI adapter calls the API with \<^verbatim>\<open>"en-IN"\<close> where the local adapter calls the model
  with \<^verbatim>\<open>"en"\<close>; for the empty language it calls the API with the empty string where the
  local adapter passes no language.
\<close>

theorem dual_openai_adapter_skips_lang_map:
  "trace (snd (transcribe_with_openai env0 ''/tmp/tmpa.wav'' ''en-IN'' w_init))
     = [CallOpenAI ''/tmp/tmpa.wav'' (Some ''en-IN'')]
   \<and> trace (snd (transcribe_with_local_whisper env0 ''/tmp/tmpa.wav'' ''en-IN'' w_init))
     = [CallLocal ''/tmp/tmpa.wav'' (Some ''en'')]
   \<and> trace (snd (transcribe_with_openai env0 ''/tmp/tmpa.wav'' [] w_init))
     = [CallOpenAI ''/tmp/tmpa.wav'' (Some [])]
   \<and> trace (snd (transcribe_with_local_whisper env0 ''/tmp/tmpa.wav'' [] w_init))
     = [CallLocal ''/tmp/tmpa.wav'' None]"
  by (simp add: transcribe_with_openai_def transcribe_with_local_whisper_def env0_def w_init_def
      options_language_def lang_map_def)

section \<open>Cleanup of the staged file\<close>

text \<open>
  C2. When \<^verbatim>\<open>shutil.copyfileobj\<close> raises (here: the disk is full), \<^verbatim>\<open>temp_path\<close> has not
  been assigned yet. In each of the three handlers the \<^verbatim>\<open>finally\<close> block then raises
  \<^verbatim>\<open>UnboundLocalError\<close> before it reaches \<^verbatim>\<open>os.unlink\<close>, and the temporary file, created
  with \<^verbatim>\<open>delete=False\<close>, is still there when the handler is left.
\<close>

theorem staged_file_left_behind_when_copy_raises:
  "transcribe_audio_dual (env0\<lparr>copyfileobj := Some ''No space left on device''\<rparr>)
       wav ''auto'' ''auto'' w_init
     = (Inl (UnboundLocalError ''cannot access local variable 'temp_path' where it is not associated with a value''),
        \<lparr>files = {''/tmp/tmpa.wav''}, trace = [CreateTemp ''/tmp/tmpa.wav'']\<rparr>)
   \<and> transcribe_audio (env0\<lparr>copyfileobj := Some ''No space left on device''\<rparr>)
       wav ''auto'' ''both'' w_init
     = (Inl (UnboundLocalError ''cannot access local variable 'temp_path' where it is not associated with a value''),
        \<lparr>files = {''/tmp/tmpa.wav''}, trace = [CreateTemp ''/tmp/tmpa.wav'']\<rparr>)
   \<and> transcribe_audio_original (env0\<lparr>copyfileobj := Some ''No space left on device''\<rparr>)
       wav ''auto'' w_init
     = (Inl (UnboundLocalError ''cannot access local variable 'temp_path' where it is not associated with a value''),
        \<lparr>files = {''/tmp/tmpa.wav''}, trace = [CreateTemp ''/tmp/tmpa.wav'']\<rparr>)"
  by (simp add: transcribe_audio_dual_def transcribe_audio_def transcribe_audio_original_def
      select_engine_def open_temp_def finally_unlink_def env0_def wav_def w_init_def)

text \<open>When the copy succeeds, the staged file is gone when the handler is left, whatever
  the engines did.\<close>

lemma dual_staged_file_deleted:
  assumes "content_type audio = Some ct" "prefix ''audio/'' ct" "filename audio = Some name"
    and "NamedTemporaryFile e name = Inr p" "copyfileobj e = None"
    and "select_engine e engine = Inr s"
  shows "p \<notin> files (snd (transcribe_audio_dual e audio language engine w))"
  using assms by (simp add: transcribe_audio_dual_def open_temp_def)

lemma both_staged_file_deleted:
  assumes "content_type audio = Some ct" "prefix ''audio/'' ct" "filename audio = Some name"
    and "NamedTemporaryFile e name = Inr p" "copyfileobj e = None"
    and "whisper_model e"
  shows "p \<notin> files (snd (transcribe_audio e audio language engines w))"
  using assms by (simp add: transcribe_audio_def open_temp_def)

lemma original_staged_file_deleted:
  assumes "content_type audio = Some ct" "prefix ''audio/'' ct" "filename audio = Some name"
    and "NamedTemporaryFile e name = Inr p" "copyfileobj e = None"
    and "whisper_model e"
  shows "p \<notin> files (snd (transcribe_audio_original e audio language w))"
  using assms by (simp add: transcribe_audio_original_def open_temp_def)

section \<open>No engine available\<close>

text \<open>
  C3, as stated, fails for \<^verbatim>\<open>server_dual.py\<close> when the request names an engine: with
  neither engine available and \<^verbatim>\<open>engine="local"\<close> the payload is staged (and removed
  again) and the answer is 500, not 503.
\<close>

theorem no_engine_dual_explicit_counterexample:
  "transcribe_audio_dual (env0\<lparr>whisper_model := False, openai_client := False\<rparr>)
       wav ''auto'' ''local'' w_init
     = (Inl (HTTPException 500
          ''Both engines failed. Primary: Engine local_whisper not available, Fallback: Fallback engine openai_whisper not available''),
        \<lparr>files = {}, trace = [CreateTemp ''/tmp/tmpa.wav'', Unlink ''/tmp/tmpa.wav'']\<rparr>)"
  by (simp add: transcribe_audio_dual_def select_engine_def open_temp_def finally_unlink_def
      primary_then_fallback_def run_engine_def env0_def wav_def w_init_def)

text \<open>
  C3, amended. With neither engine available, \<^verbatim>\<open>server.py\<close> and
  \<^verbatim>\<open>server_original.py\<close> answer every request with 503, and \<^verbatim>\<open>server_dual.py\<close>
  answers a request with \<^verbatim>\<open>engine="auto"\<close> with 503 once its content type has passed
  (400 for a content type that is not audio). In all these cases the world is returned
  unchanged: no temporary file is created.
\<close>

theorem no_engine_available_503:
  assumes "\<not> whisper_model e" "\<not> openai_client e"
  shows "transcribe_audio e audio language engines w
           = (Inl (HTTPException 503 ''Whisper model not loaded''), w)
       \<and> transcribe_audio_original e audio language w
           = (Inl (HTTPException 503 ''Whisper model not loaded''), w)
       \<and> transcribe_audio_dual e audio language ''auto'' w
           = (case content_type audio of
                None \<Rightarrow> (Inl (AttributeError ('''NoneType' object has no attribute 'startswith'' @ [CHR 0x27])), w)
              | Some ct \<Rightarrow>
                  if prefix ''audio/'' ct
                  then (Inl (HTTPException 503 ''No transcription engines available''), w)
                  else (Inl (HTTPException 400 ''File must be an audio file''), w))"
  using assms
  by (simp add: transcribe_audio_def transcribe_audio_original_def transcribe_audio_dual_def
      select_engine_def split: option.splits)

theorem no_engine_available_503_witness:
  "\<not> whisper_model (env0\<lparr>whisper_model := False, openai_client := False\<rparr>)
   \<and> \<not> openai_client (env0\<lparr>whisper_model := False, openai_client := False\<rparr>)
   \<and> transcribe_audio (env0\<lparr>whisper_model := False, openai_client := False\<rparr>)
         wav ''auto'' ''both'' w_init
       = (Inl (HTTPException 503 ''Whisper model not loaded''), w_init)
   \<and> transcribe_audio_original (env0\<lparr>whisper_model := False, openai_client := False\<rparr>)
         wav ''auto'' w_init
       = (Inl (HTTPException 503 ''Whisper model not loaded''), w_init)
   \<and> transcribe_audio_dual (env0\<lparr>whisper_model := False, openai_client := False\<rparr>)
         wav ''auto'' ''auto'' w_init
       = (Inl (HTTPException 503 ''No transcription engines available''), w_init)"
  using no_engine_available_503
    [of "env0\<lparr>whisper_model := False, openai_client := False\<rparr>" wav "''auto''" "''both''" w_init]
  by (simp add: env0_def wav_def)

section \<open>What becomes of an engine's exception\<close>

text \<open>
  C1, as stated, fails: the adapter \<^verbatim>\<open>transcribe_with_openai\<close> of \<^verbatim>\<open>server_dual.py\<close>
  lets the engine's exception through to its caller, and where \<^verbatim>\<open>server.py\<close> captures
  one, the entry it builds has the keys \<^verbatim>\<open>text\<close>, \<^verbatim>\<open>status\<close> and \<^verbatim>\<open>engine\<close> and no
  error kind.
\<close>

theorem openai_adapter_raises_counterexample:
  "fst (transcribe_with_openai (env0\<lparr>openai_transcribe := (\<lambda>tr p l. Inl ''Connection error.'')\<rparr>)
          ''/tmp/tmpa.wav'' ''auto'' w_init) = Inl ''Connection error.''
   \<and> fst (transcribe_audio (env0\<lparr>openai_transcribe := (\<lambda>tr p l. Inl ''Connection error.'')\<rparr>)
          wav ''auto'' ''openai'' w_init)
       = Inr (JObj [(''text'', JStr ''OpenAI Whisper failed: Connection error.''),
                    (''status'', JStr ''error''),
                    (''engine'', JStr ''openai_whisper'')])"
  by (simp add: transcribe_with_openai_def transcribe_audio_def transcribe_both_def
      local_step_def openai_step_def response_def dict_set_def open_temp_def finally_unlink_def
      options_language_def env0_def wav_def w_init_def)

text \<open>
  C1, amended. Once the payload is staged, an engine's exception with message \<open>m\<close> never
  leaves a handler as such, and what becomes of it carries \<open>m\<close> and no error kind.
  In \<^verbatim>\<open>server_dual.py\<close> the adapters raise it to the handler, and the handler ends
  with a body or an \<^verbatim>\<open>HTTPException\<close>: when the first attempt raises \<open>m\<close>, the answer
  is 500 \<^verbatim>\<open>"Transcription failed: m"\<close> with the fallback off, 500
  \<^verbatim>\<open>"Both engines failed. Primary: m, Fallback: m'"\<close> when the fallback attempt raises
  \<open>m'\<close>, and the fallback's result, marked and with \<open>m\<close> as primary error, when it
  returns. \<^verbatim>\<open>server_original.py\<close> ends with a body or an \<^verbatim>\<open>HTTPException\<close>, which is
  500 \<^verbatim>\<open>"Transcription failed: m"\<close> when the engine raises \<open>m\<close>. \<^verbatim>\<open>server.py\<close>, with its
  model loaded, always ends with a body; an engine that raises \<open>m\<close> has the entry with
  exactly the keys \<^verbatim>\<open>text\<close> (\<^verbatim>\<open>"Local Whisper failed: m"\<close> or
  \<^verbatim>\<open>"OpenAI Whisper failed: m"\<close>), \<^verbatim>\<open>status\<close> (\<^verbatim>\<open>"error"\<close>) and \<^verbatim>\<open>engine\<close>, which is the
  body for \<^verbatim>\<open>engines="local"\<close> or \<^verbatim>\<open>"openai"\<close> and an entry of the mapping for
  \<^verbatim>\<open>engines="both"\<close>.
\<close>

theorem engine_exceptions_stay_inside:
  assumes "content_type audio = Some ct" "prefix ''audio/'' ct" "filename audio = Some name"
    and "NamedTemporaryFile e name = Inr p" "copyfileobj e = None"
  shows "(whisper_transcribe e (trace w0) q (options_language language) = Inl m \<longrightarrow>
            fst (transcribe_with_local_whisper e q language w0) = Inl m)
       \<and> (openai_transcribe e (trace w0) q (if language \<noteq> ''auto'' then Some language else None)
              = Inl m \<longrightarrow>
            fst (transcribe_with_openai e q language w0) = Inl m)
       \<and> answered (fst (transcribe_audio_dual e audio language engine w))
       \<and> (select_engine e engine = Inr s
            \<and> run_engine ''Engine'' e s p language (staged w p) = (Inl m, w1) \<longrightarrow>
            fst (transcribe_audio_dual e audio language engine w)
              = (if ENABLE_DUAL_ENGINE e \<and> FALLBACK_ENGINE e \<noteq> []
                 then (case run_engine ''Fallback engine'' e (FALLBACK_ENGINE e) p language w1 of
                         (Inr result, w2) \<Rightarrow>
                           Inr (JObj (dict_set
                                  (dict_set result ''engine_used''
                                     (JStr (FALLBACK_ENGINE e @ '' (fallback)'')))
                                  ''primary_engine_error'' (JStr m)))
                       | (Inl fallback_error, w2) \<Rightarrow>
                           Inl (HTTPException 500
                                  (''Both engines failed. Primary: '' @ m
                                     @ '', Fallback: '' @ fallback_error)))
                 else Inl (HTTPException 500 (''Transcription failed: '' @ m))))
       \<and> answered (fst (transcribe_audio_original e audio language w))
       \<and> (whisper_model e
            \<and> whisper_transcribe e (trace w @ [CreateTemp p]) p (options_language language)
                = Inl m \<longrightarrow>
            fst (transcribe_audio_original e audio language w)
              = Inl (HTTPException 500 (''Transcription failed: '' @ m))
            \<and> fst (transcribe_audio e audio language ''local'' w)
              = Inr (JObj [(''text'', JStr (''Local Whisper failed: '' @ m)),
                           (''status'', JStr ''error''),
                           (''engine'', JStr ''local_whisper'')])
            \<and> (\<exists>oe. fst (transcribe_audio e audio language ''both'' w)
                  = Inr (JObj [(''engines'',
                                 JObj [(''local_whisper'',
                                          JObj [(''text'', JStr (''Local Whisper failed: '' @ m)),
                                                (''status'', JStr ''error''),
                                                (''engine'', JStr ''local_whisper'')]),
                                       (''openai_whisper'', oe)]),
                               (''dual_mode'', JBool True),
                               (''filename'', JStr name)])))
       \<and> (whisper_model e \<and> openai_client e
            \<and> openai_transcribe e (trace w @ [CreateTemp p]) p (options_language language)
                = Inl m \<longrightarrow>
            fst (transcribe_audio e audio language ''openai'' w)
              = Inr (JObj [(''text'', JStr (''OpenAI Whisper failed: '' @ m)),
                           (''status'', JStr ''error''),
                           (''engine'', JStr ''openai_whisper'')]))
       \<and> (whisper_model e \<and> openai_client e
            \<and> openai_transcribe e
                  (trace w @ [CreateTemp p, CallLocal p (options_language language)])
                  p (options_language language) = Inl m \<longrightarrow>
            (\<exists>le. fst (transcribe_audio e audio language ''both'' w)
                  = Inr (JObj [(''engines'',
                                 JObj [(''local_whisper'', le),
                                       (''openai_whisper'',
                                          JObj [(''text'', JStr (''OpenAI Whisper failed: '' @ m)),
                                                (''status'', JStr ''error''),
                                                (''engine'', JStr ''openai_whisper'')])]),
                               (''dual_mode'', JBool True),
                               (''filename'', JStr name)])))
       \<and> (whisper_model e \<longrightarrow>
            (\<exists>body. fst (transcribe_audio e audio language engines w) = Inr body))"
proof -
  have a1: "whisper_transcribe e (trace w0) q (options_language language) = Inl m \<longrightarrow>
            fst (transcribe_with_local_whisper e q language w0) = Inl m"
    by (simp add: adapters_raise)
  have a2: "openai_transcribe e (trace w0) q (if language \<noteq> ''auto'' then Some language else None)
              = Inl m \<longrightarrow>
            fst (transcribe_with_openai e q language w0) = Inl m"
    using adapters_raise(2) [of e w0 q language m] by blast
  have d1: "answered (fst (transcribe_audio_dual e audio language engine w))"
    using assms
    by (simp add: transcribe_audio_dual_def open_temp_def select_engine_def
        answered_primary_then_fallback)
  have d2: "select_engine e engine = Inr s
            \<and> run_engine ''Engine'' e s p language (staged w p) = (Inl m, w1) \<longrightarrow>
            fst (transcribe_audio_dual e audio language engine w)
              = (if ENABLE_DUAL_ENGINE e \<and> FALLBACK_ENGINE e \<noteq> []
                 then (case run_engine ''Fallback engine'' e (FALLBACK_ENGINE e) p language w1 of
                         (Inr result, w2) \<Rightarrow>
                           Inr (JObj (dict_set
                                  (dict_set result ''engine_used''
                                     (JStr (FALLBACK_ENGINE e @ '' (fallback)'')))
                                  ''primary_engine_error'' (JStr m)))
                       | (Inl fallback_error, w2) \<Rightarrow>
                           Inl (HTTPException 500
                                  (''Both engines failed. Primary: '' @ m
                                     @ '', Fallback: '' @ fallback_error)))
                 else Inl (HTTPException 500 (''Transcription failed: '' @ m)))"
    using dual_primary_raises [OF assms, of engine s language w m w1] by blast
  have o1: "answered (fst (transcribe_audio_original e audio language w))"
    using assms
    by (simp add: transcribe_audio_original_def open_temp_def Let_def split: sum.splits)
  have s1: "whisper_model e
            \<and> whisper_transcribe e (trace w @ [CreateTemp p]) p (options_language language)
                = Inl m \<longrightarrow>
            fst (transcribe_audio_original e audio language w)
              = Inl (HTTPException 500 (''Transcription failed: '' @ m))
            \<and> fst (transcribe_audio e audio language ''local'' w)
              = Inr (JObj [(''text'', JStr (''Local Whisper failed: '' @ m)),
                           (''status'', JStr ''error''),
                           (''engine'', JStr ''local_whisper'')])
            \<and> (\<exists>oe. fst (transcribe_audio e audio language ''both'' w)
                  = Inr (JObj [(''engines'',
                                 JObj [(''local_whisper'',
                                          JObj [(''text'', JStr (''Local Whisper failed: '' @ m)),
                                                (''status'', JStr ''error''),
                                                (''engine'', JStr ''local_whisper'')]),
                                       (''openai_whisper'', oe)]),
                               (''dual_mode'', JBool True),
                               (''filename'', JStr name)]))"
    using original_engine_raises [OF assms, of w language m]
      server_local_raises [OF assms, of w language m]
    by blast
  have s2: "whisper_model e \<and> openai_client e
            \<and> openai_transcribe e (trace w @ [CreateTemp p]) p (options_language language)
                = Inl m \<longrightarrow>
            fst (transcribe_audio e audio language ''openai'' w)
              = Inr (JObj [(''text'', JStr (''OpenAI Whisper failed: '' @ m)),
                           (''status'', JStr ''error''),
                           (''engine'', JStr ''openai_whisper'')])"
    using server_openai_raises(1) [OF assms, of w language m] by blast
  have s3: "whisper_model e \<and> openai_client e
            \<and> openai_transcribe e
                  (trace w @ [CreateTemp p, CallLocal p (options_language language)])
                  p (options_language language) = Inl m \<longrightarrow>
            (\<exists>le. fst (transcribe_audio e audio language ''both'' w)
                  = Inr (JObj [(''engines'',
                                 JObj [(''local_whisper'', le),
                                       (''openai_whisper'',
                                          JObj [(''text'', JStr (''OpenAI Whisper failed: '' @ m)),
                                                (''status'', JStr ''error''),
                                                (''engine'', JStr ''openai_whisper'')])]),
                               (''dual_mode'', JBool True),
                               (''filename'', JStr name)]))"
    using server_openai_raises(2) [OF assms, of w language m] by blast
  have s4: "whisper_model e \<longrightarrow>
            (\<exists>body. fst (transcribe_audio e audio language engines w) = Inr body)"
    using assms
    by (simp add: transcribe_audio_def open_temp_def transcribe_both_def Let_def)
  from a1 a2 d1 d2 o1 s1 s2 s3 s4 show ?thesis by (intro conjI)
qed

theorem engine_exceptions_stay_inside_witness:
  "content_type wav = Some ''audio/wav'' \<and> prefix ''audio/'' ''audio/wav''
   \<and> filename wav = Some ''a.wav''
   \<and> NamedTemporaryFile env_failing ''a.wav'' = Inr ''/tmp/tmpa.wav''
   \<and> copyfileobj env_failing = None
   \<and> whisper_model env_failing \<and> openai_client env_failing
   \<and> whisper_transcribe env_failing [CreateTemp ''/tmp/tmpa.wav''] ''/tmp/tmpa.wav''
        (options_language ''auto'') = Inl ''CUDA out of memory''
   \<and> fst (transcribe_with_local_whisper env_failing ''/tmp/tmpa.wav'' ''auto''
             (staged w_init ''/tmp/tmpa.wav'')) = Inl ''CUDA out of memory''
   \<and> openai_transcribe env_failing [CreateTemp ''/tmp/tmpa.wav''] ''/tmp/tmpa.wav''
        (options_language ''auto'') = Inl ''Connection error.''
   \<and> fst (transcribe_with_openai env_failing ''/tmp/tmpa.wav'' ''auto''
             (staged w_init ''/tmp/tmpa.wav'')) = Inl ''Connection error.''
   \<and> select_engine env_failing ''auto'' = Inr ''local_whisper''
   \<and> run_engine ''Engine'' env_failing ''local_whisper'' ''/tmp/tmpa.wav'' ''auto''
         (staged w_init ''/tmp/tmpa.wav'')
       = (Inl ''CUDA out of memory'',
          \<lparr>files = {''/tmp/tmpa.wav''},
           trace = [CreateTemp ''/tmp/tmpa.wav'', CallLocal ''/tmp/tmpa.wav'' None]\<rparr>)
   \<and> answered (fst (transcribe_audio_dual env_failing wav ''auto'' ''auto'' w_init))
   \<and> fst (transcribe_audio_dual env_failing wav ''auto'' ''auto'' w_init)
       = Inl (HTTPException 500
           ''Both engines failed. Primary: CUDA out of memory, Fallback: Connection error.'')
   \<and> answered (fst (transcribe_audio_original env_failing wav ''auto'' w_init))
   \<and> fst (transcribe_audio_original env_failing wav ''auto'' w_init)
       = Inl (HTTPException 500 ''Transcription failed: CUDA out of memory'')
   \<and> fst (transcribe_audio env_failing wav ''auto'' ''local'' w_init)
       = Inr (JObj [(''text'', JStr ''Local Whisper failed: CUDA out of memory''),
                    (''status'', JStr ''error''),
                    (''engine'', JStr ''local_whisper'')])
   \<and> fst (transcribe_audio env_failing wav ''auto'' ''openai'' w_init)
       = Inr (JObj [(''text'', JStr ''OpenAI Whisper failed: Connection error.''),
                    (''status'', JStr ''error''),
                    (''engine'', JStr ''openai_whisper'')])
   \<and> fst (transcribe_audio env_failing wav ''auto'' ''both'' w_init)
       = Inr (JObj [(''engines'',
                      JObj [(''local_whisper'',
                               JObj [(''text'', JStr ''Local Whisper failed: CUDA out of memory''),
                                     (''status'', JStr ''error''),
                                     (''engine'', JStr ''local_whisper'')]),
                            (''openai_whisper'',
                               JObj [(''text'', JStr ''OpenAI Whisper failed: Connection error.''),
                                     (''status'', JStr ''error''),
                                     (''engine'', JStr ''openai_whisper'')])]),
                    (''dual_mode'', JBool True),
                    (''filename'', JStr ''a.wav'')])"
  using
    engine_exceptions_stay_inside
      [where audio = wav and ct = "''audio/wav''" and name = "''a.wav''" and e = env_failing
         and p = "''/tmp/tmpa.wav''" and language = "''auto''" and engine = "''auto''"
         and engines = "''both''" and w = w_init and w0 = "staged w_init ''/tmp/tmpa.wav''"
         and q = "''/tmp/tmpa.wav''" and m = "''CUDA out of memory''" and s = "''local_whisper''"
         and ?w1.0 = "\<lparr>files = {''/tmp/tmpa.wav''},
                     trace = [CreateTemp ''/tmp/tmpa.wav'', CallLocal ''/tmp/tmpa.wav'' None]\<rparr>"]
    engine_exceptions_stay_inside
      [where audio = wav and ct = "''audio/wav''" and name = "''a.wav''" and e = env_failing
         and p = "''/tmp/tmpa.wav''" and language = "''auto''" and engine = "''auto''"
         and engines = "''both''" and w = w_init and w0 = "staged w_init ''/tmp/tmpa.wav''"
         and q = "''/tmp/tmpa.wav''" and m = "''Connection error.''"]
  by (simp add: env_failing_def env0_def wav_def w_init_def options_language_def
      select_engine_def run_engine_def transcribe_with_local_whisper_def
      transcribe_with_openai_def transcribe_audio_def transcribe_both_def local_step_def
      openai_step_def response_def dict_set_def open_temp_def finally_unlink_def)

section \<open>A single engine that fails\<close>

text \<open>
  C4, as stated, fails for \<^verbatim>\<open>server.py\<close>: a request for \<^verbatim>\<open>engines="local"\<close> whose
  engine raises is answered with a body (200) that carries the error.
\<close>

theorem single_local_failure_200_counterexample:
  "transcribe_audio env_failing wav ''auto'' ''local'' w_init
     = (Inr (JObj [(''text'', JStr ''Local Whisper failed: CUDA out of memory''),
                   (''status'', JStr ''error''),
                   (''engine'', JStr ''local_whisper'')]),
        \<lparr>files = {},
         trace = [CreateTemp ''/tmp/tmpa.wav'', CallLocal ''/tmp/tmpa.wav'' None,
                  Unlink ''/tmp/tmpa.wav'']\<rparr>)"
  by (simp add: transcribe_audio_def transcribe_both_def
      local_step_def openai_step_def response_def dict_set_def open_temp_def finally_unlink_def
      options_language_def env_failing_def env0_def wav_def w_init_def)

text \<open>
  C4, amended. On a staged request for a single engine whose transcription raises with
  message \<open>m\<close>: \<^verbatim>\<open>server_original.py\<close> fails the request with 500
  \<^verbatim>\<open>"Transcription failed: m"\<close>. \<^verbatim>\<open>server_dual.py\<close>, asked for \<^verbatim>\<open>engine="local"\<close> or
  \<^verbatim>\<open>"openai"\<close>, fails the request with 500 (\<^verbatim>\<open>"Transcription failed: m"\<close> with the
  fallback off, \<^verbatim>\<open>"Both engines failed. Primary: m, Fallback: m'"\<close> when the fallback
  attempt raises \<open>m'\<close>) unless the fallback attempt returns; then it answers (200) with
  the fallback attempt's result, marked as fallback and with \<open>m\<close> as primary error.
  \<^verbatim>\<open>server.py\<close>, asked for \<^verbatim>\<open>engines="local"\<close> or \<^verbatim>\<open>"openai"\<close>, answers
  with a body (200) that is that engine's error entry: text
  \<^verbatim>\<open>"Local Whisper failed: m"\<close> or \<^verbatim>\<open>"OpenAI Whisper failed: m"\<close>, status \<^verbatim>\<open>"error"\<close>.
  Each part holds whatever the other engine does.
\<close>

theorem single_engine_failure_outcomes:
  assumes "content_type audio = Some ct" "prefix ''audio/'' ct" "filename audio = Some name"
    and "NamedTemporaryFile e name = Inr p" "copyfileobj e = None"
  shows "(whisper_model e
            \<and> whisper_transcribe e (trace w @ [CreateTemp p]) p (options_language language)
                = Inl m \<longrightarrow>
            fst (transcribe_audio e audio language ''local'' w)
              = Inr (JObj [(''text'', JStr (''Local Whisper failed: '' @ m)),
                           (''status'', JStr ''error''),
                           (''engine'', JStr ''local_whisper'')])
            \<and> fst (transcribe_audio_original e audio language w)
              = Inl (HTTPException 500 (''Transcription failed: '' @ m)))
       \<and> (whisper_model e \<and> openai_client e
            \<and> openai_transcribe e (trace w @ [CreateTemp p]) p (options_language language)
                = Inl m \<longrightarrow>
            fst (transcribe_audio e audio language ''openai'' w)
              = Inr (JObj [(''text'', JStr (''OpenAI Whisper failed: '' @ m)),
                           (''status'', JStr ''error''),
                           (''engine'', JStr ''openai_whisper'')]))
       \<and> (engine \<in> {''local'', ''openai''}
            \<and> run_engine ''Engine'' e (engine @ ''_whisper'') p language (staged w p)
                = (Inl m, w1) \<longrightarrow>
            fst (transcribe_audio_dual e audio language engine w)
              = (if ENABLE_DUAL_ENGINE e \<and> FALLBACK_ENGINE e \<noteq> []
                 then (case run_engine ''Fallback engine'' e (FALLBACK_ENGINE e) p language w1 of
                         (Inr result, w2) \<Rightarrow>
                           Inr (JObj (dict_set
                                  (dict_set result ''engine_used''
                                     (JStr (FALLBACK_ENGINE e @ '' (fallback)'')))
                                  ''primary_engine_error'' (JStr m)))
                       | (Inl fallback_error, w2) \<Rightarrow>
                           Inl (HTTPException 500
                                  (''Both engines failed. Primary: '' @ m
                                     @ '', Fallback: '' @ fallback_error)))
                 else Inl (HTTPException 500 (''Transcription failed: '' @ m))))"
proof -
  have a: "whisper_model e
            \<and> whisper_transcribe e (trace w @ [CreateTemp p]) p (options_language language)
                = Inl m \<longrightarrow>
            fst (transcribe_audio e audio language ''local'' w)
              = Inr (JObj [(''text'', JStr (''Local Whisper failed: '' @ m)),
                           (''status'', JStr ''error''),
                           (''engine'', JStr ''local_whisper'')])
            \<and> fst (transcribe_audio_original e audio language w)
              = Inl (HTTPException 500 (''Transcription failed: '' @ m))"
    using original_engine_raises [OF assms, of w language m]
      server_local_raises(1) [OF assms, of w language m]
    by blast
  have b: "whisper_model e \<and> openai_client e
            \<and> openai_transcribe e (trace w @ [CreateTemp p]) p (options_language language)
                = Inl m \<longrightarrow>
            fst (transcribe_audio e audio language ''openai'' w)
              = Inr (JObj [(''text'', JStr (''OpenAI Whisper failed: '' @ m)),
                           (''status'', JStr ''error''),
                           (''engine'', JStr ''openai_whisper'')])"
    using server_openai_raises(1) [OF assms, of w language m] by blast
  have c: "engine \<in> {''local'', ''openai''}
            \<and> run_engine ''Engine'' e (engine @ ''_whisper'') p language (staged w p)
                = (Inl m, w1) \<longrightarrow>
            fst (transcribe_audio_dual e audio language engine w)
              = (if ENABLE_DUAL_ENGINE e \<and> FALLBACK_ENGINE e \<noteq> []
                 then (case run_engine ''Fallback engine'' e (FALLBACK_ENGINE e) p language w1 of
                         (Inr result, w2) \<Rightarrow>
                           Inr (JObj (dict_set
                                  (dict_set result ''engine_used''
                                     (JStr (FALLBACK_ENGINE e @ '' (fallback)'')))
                                  ''primary_engine_error'' (JStr m)))
                       | (Inl fallback_error, w2) \<Rightarrow>
                           Inl (HTTPException 500
                                  (''Both engines failed. Primary: '' @ m
                                     @ '', Fallback: '' @ fallback_error)))
                 else Inl (HTTPException 500 (''Transcription failed: '' @ m)))"
  proof (intro impI, elim conjE)
    assume g: "engine \<in> {''local'', ''openai''}"
      and r: "run_engine ''Engine'' e (engine @ ''_whisper'') p language (staged w p) = (Inl m, w1)"
    from g have "engine \<noteq> ''auto''" by auto
    then have sel: "select_engine e engine = Inr (engine @ ''_whisper'')"
      by (rule select_engine_explicit)
    from dual_primary_raises [OF assms sel r]
    show "fst (transcribe_audio_dual e audio language engine w)
              = (if ENABLE_DUAL_ENGINE e \<and> FALLBACK_ENGINE e \<noteq> []
                 then (case run_engine ''Fallback engine'' e (FALLBACK_ENGINE e) p language w1 of
                         (Inr result, w2) \<Rightarrow>
                           Inr (JObj (dict_set
                                  (dict_set result ''engine_used''
                                     (JStr (FALLBACK_ENGINE e @ '' (fallback)'')))
                                  ''primary_engine_error'' (JStr m)))
                       | (Inl fallback_error, w2) \<Rightarrow>
                           Inl (HTTPException 500
                                  (''Both engines failed. Primary: '' @ m
                                     @ '', Fallback: '' @ fallback_error)))
                 else Inl (HTTPException 500 (''Transcription failed: '' @ m)))" .
  qed
  from a b c show ?thesis by (intro conjI)
qed

theorem single_engine_failure_outcomes_witness:
  "content_type wav = Some ''audio/wav'' \<and> prefix ''audio/'' ''audio/wav''
   \<and> filename wav = Some ''a.wav''
   \<and> NamedTemporaryFile env_local_fails ''a.wav'' = Inr ''/tmp/tmpa.wav''
   \<and> copyfileobj env_local_fails = None \<and> whisper_model env_local_fails
   \<and> whisper_transcribe env_local_fails (trace w_init @ [CreateTemp ''/tmp/tmpa.wav''])
        ''/tmp/tmpa.wav'' (options_language ''auto'') = Inl ''CUDA out of memory''
   \<and> fst (transcribe_audio env_local_fails wav ''auto'' ''local'' w_init)
       = Inr (JObj [(''text'', JStr ''Local Whisper failed: CUDA out of memory''),
                    (''status'', JStr ''error''),
                    (''engine'', JStr ''local_whisper'')])
   \<and> fst (transcribe_audio_original env_local_fails wav ''auto'' w_init)
       = Inl (HTTPException 500 ''Transcription failed: CUDA out of memory'')
   \<and> ''local'' \<in> {''local'', ''openai''}
   \<and> run_engine ''Engine'' env_local_fails (''local'' @ ''_whisper'') ''/tmp/tmpa.wav'' ''auto''
         (staged w_init ''/tmp/tmpa.wav'')
       = (Inl ''CUDA out of memory'',
          \<lparr>files = {''/tmp/tmpa.wav''},
           trace = [CreateTemp ''/tmp/tmpa.wav'', CallLocal ''/tmp/tmpa.wav'' None]\<rparr>)
   \<and> fst (transcribe_audio_dual env_local_fails wav ''auto'' ''local'' w_init)
       = Inr (JObj [(''text'', JStr ''hello''),
                    (''language_detected'', JStr ''auto-detected''),
                    (''confidence'', JStr ''N/A''),
                    (''engine'', JStr ''openai_whisper''),
                    (''model'', JStr ''whisper-1''),
                    (''engine_used'', JStr ''openai_whisper (fallback)''),
                    (''primary_engine_error'', JStr ''CUDA out of memory'')])
   \<and> NamedTemporaryFile env_failing_single ''a.wav'' = Inr ''/tmp/tmpa.wav''
   \<and> copyfileobj env_failing_single = None
   \<and> \<not> ENABLE_DUAL_ENGINE env_failing_single
   \<and> run_engine ''Engine'' env_failing_single (''local'' @ ''_whisper'') ''/tmp/tmpa.wav''
         ''auto'' (staged w_init ''/tmp/tmpa.wav'')
       = (Inl ''CUDA out of memory'',
          \<lparr>files = {''/tmp/tmpa.wav''},
           trace = [CreateTemp ''/tmp/tmpa.wav'', CallLocal ''/tmp/tmpa.wav'' None]\<rparr>)
   \<and> fst (transcribe_audio_dual env_failing_single wav ''auto'' ''local'' w_init)
       = Inl (HTTPException 500 ''Transcription failed: CUDA out of memory'')
   \<and> NamedTemporaryFile env_openai_fails ''a.wav'' = Inr ''/tmp/tmpa.wav''
   \<and> copyfileobj env_openai_fails = None
   \<and> whisper_model env_openai_fails \<and> openai_client env_openai_fails
   \<and> whisper_transcribe env_openai_fails (trace w_init @ [CreateTemp ''/tmp/tmpa.wav''])
        ''/tmp/tmpa.wav'' (options_language ''auto'')
       = Inr \<lparr>result_text = '' hello '', result_language = Some ''en''\<rparr>
   \<and> openai_transcribe env_openai_fails (trace w_init @ [CreateTemp ''/tmp/tmpa.wav''])
        ''/tmp/tmpa.wav'' (options_language ''auto'') = Inl ''Connection error.''
   \<and> fst (transcribe_audio env_openai_fails wav ''auto'' ''openai'' w_init)
       = Inr (JObj [(''text'', JStr ''OpenAI Whisper failed: Connection error.''),
                    (''status'', JStr ''error''),
                    (''engine'', JStr ''openai_whisper'')])
   \<and> ''openai'' \<in> {''local'', ''openai''}
   \<and> run_engine ''Engine'' env_openai_fails (''openai'' @ ''_whisper'') ''/tmp/tmpa.wav''
         ''auto'' (staged w_init ''/tmp/tmpa.wav'')
       = (Inl ''Connection error.'',
          \<lparr>files = {''/tmp/tmpa.wav''},
           trace = [CreateTemp ''/tmp/tmpa.wav'', CallOpenAI ''/tmp/tmpa.wav'' None]\<rparr>)
   \<and> fst (transcribe_audio_dual env_openai_fails wav ''auto'' ''openai'' w_init)
       = Inl (HTTPException 500
           ''Both engines failed. Primary: Connection error., Fallback: Connection error.'')"
  using
    single_engine_failure_outcomes
      [where audio = wav and ct = "''audio/wav''" and name = "''a.wav''" and e = env_local_fails
         and p = "''/tmp/tmpa.wav''" and language = "''auto''" and engine = "''local''"
         and w = w_init and m = "''CUDA out of memory''"
         and ?w1.0 = "\<lparr>files = {''/tmp/tmpa.wav''},
                     trace = [CreateTemp ''/tmp/tmpa.wav'', CallLocal ''/tmp/tmpa.wav'' None]\<rparr>"]
    single_engine_failure_outcomes
      [where audio = wav and ct = "''audio/wav''" and name = "''a.wav''"
         and e = env_failing_single
         and p = "''/tmp/tmpa.wav''" and language = "''auto''" and engine = "''local''"
         and w = w_init and m = "''CUDA out of memory''"
         and ?w1.0 = "\<lparr>files = {''/tmp/tmpa.wav''},
                     trace = [CreateTemp ''/tmp/tmpa.wav'', CallLocal ''/tmp/tmpa.wav'' None]\<rparr>"]
    single_engine_failure_outcomes
      [where audio = wav and ct = "''audio/wav''" and name = "''a.wav''" and e = env_openai_fails
         and p = "''/tmp/tmpa.wav''" and language = "''auto''" and engine = "''openai''"
         and w = w_init and m = "''Connection error.''"
         and ?w1.0 = "\<lparr>files = {''/tmp/tmpa.wav''},
                     trace = [CreateTemp ''/tmp/tmpa.wav'', CallOpenAI ''/tmp/tmpa.wav'' None]\<rparr>"]
  by (simp add: env_local_fails_def env_failing_single_def env_failing_def env_openai_fails_def
      env0_def wav_def w_init_def options_language_def run_engine_def
      transcribe_with_local_whisper_def transcribe_with_openai_def dict_set_def strip_def
      isspace_def)

section \<open>Both engines\<close>

text \<open>
  C7, as stated, fails: with no OpenAI client the entry of \<^verbatim>\<open>openai_whisper\<close> has the
  status \<^verbatim>\<open>"not_configured"\<close>, which is neither success nor failure.
\<close>

theorem both_not_configured_counterexample:
  "fst (transcribe_audio (env0\<lparr>openai_client := False\<rparr>) wav ''auto'' ''both'' w_init)
     = Inr (JObj
         [(''engines'',
             JObj [(''local_whisper'',
                      JObj [(''text'', JStr ''hello''),
                            (''language_detected'', JStr ''en''),
                            (''confidence'', JStr ''N/A''),
                            (''engine'', JStr ''local_whisper''),
                            (''model_size'', JStr ''base''),
                            (''status'', JStr ''success'')]),
                   (''openai_whisper'',
                      JObj [(''text'', JStr ''OpenAI not configured - add API key to python/.env''),
                            (''status'', JStr ''not_configured''),
                            (''engine'', JStr ''openai_whisper'')])]),
          (''dual_mode'', JBool True),
          (''filename'', JStr ''a.wav'')])"
  by (simp add: transcribe_audio_def transcribe_both_def
      local_step_def openai_step_def response_def dict_set_def open_temp_def finally_unlink_def
      options_language_def strip_def isspace_def env0_def wav_def w_init_def)

text \<open>
  C7, amended. A staged request for \<^verbatim>\<open>engines="both"\<close> to \<^verbatim>\<open>server.py\<close> is answered
  with a mapping of exactly two entries, \<^verbatim>\<open>local_whisper\<close> and \<^verbatim>\<open>openai_whisper\<close>. The
  first has status \<^verbatim>\<open>"success"\<close> or \<^verbatim>\<open>"error"\<close>; the second has one of these or
  \<^verbatim>\<open>"not_configured"\<close>, the latter exactly when there is no OpenAI client.
\<close>

theorem both_two_entries:
  assumes "content_type audio = Some ct" "prefix ''audio/'' ct" "filename audio = Some name"
    and "NamedTemporaryFile e name = Inr p" "copyfileobj e = None"
    and "whisper_model e"
  shows "\<exists>le oe.
           fst (transcribe_audio e audio language ''both'' w)
             = Inr (JObj [(''engines'',
                             JObj [(''local_whisper'', JObj le), (''openai_whisper'', JObj oe)]),
                          (''dual_mode'', JBool True),
                          (''filename'', JStr name)])
           \<and> map_of le ''status'' \<in> {Some (JStr ''success''), Some (JStr ''error'')}
           \<and> map_of oe ''status''
               \<in> {Some (JStr ''success''), Some (JStr ''error''), Some (JStr ''not_configured'')}
           \<and> (map_of oe ''status'' = Some (JStr ''not_configured'') \<longleftrightarrow> \<not> openai_client e)"
  using assms
  by (auto simp: transcribe_audio_def open_temp_def transcribe_both_def local_step_def
        openai_step_def response_def dict_set_def Let_def split: sum.splits)

theorem both_two_entries_witness:
  "content_type wav = Some ''audio/wav'' \<and> prefix ''audio/'' ''audio/wav''
   \<and> filename wav = Some ''a.wav''
   \<and> NamedTemporaryFile env_failing ''a.wav'' = Inr ''/tmp/tmpa.wav''
   \<and> copyfileobj env_failing = None \<and> whisper_model env_failing
   \<and> (\<exists>le oe.
           fst (transcribe_audio env_failing wav ''auto'' ''both'' w_init)
             = Inr (JObj [(''engines'',
                             JObj [(''local_whisper'', JObj le), (''openai_whisper'', JObj oe)]),
                          (''dual_mode'', JBool True),
                          (''filename'', JStr ''a.wav'')])
           \<and> map_of le ''status'' \<in> {Some (JStr ''success''), Some (JStr ''error'')}
           \<and> map_of oe ''status''
               \<in> {Some (JStr ''success''), Some (JStr ''error''), Some (JStr ''not_configured'')}
           \<and> (map_of oe ''status'' = Some (JStr ''not_configured'')
                 \<longleftrightarrow> \<not> openai_client env_failing))"
  using both_two_entries
    [of wav "''audio/wav''" "''a.wav''" env_failing "''/tmp/tmpa.wav''" "''auto''" w_init]
  by (simp add: env_failing_def env0_def wav_def)

section \<open>A selected engine that is not available\<close>

text \<open>What \<^verbatim>\<open>server_dual.py\<close> does with a staged request whose selected engine is not
  available: that engine is not called. If the dual engine is enabled and the fallback
  is available, the fallback engine is called once and the answer is its result, marked,
  or a 500 naming both errors if it raises. Otherwise no engine is called and the answer
  is a 500.\<close>

lemma unavailable_selected_exact:
  assumes "content_type audio = Some ct" "prefix ''audio/'' ct" "filename audio = Some name"
    and "NamedTemporaryFile e name = Inr p" "copyfileobj e = None"
    and "select_engine e engine = Inr s" "\<not> is_available e s"
  shows "if ENABLE_DUAL_ENGINE e \<and> is_available e (FALLBACK_ENGINE e)
         then trace (snd (transcribe_audio_dual e audio language engine w))
                = trace w @ [CreateTemp p, call_of (FALLBACK_ENGINE e) p language, Unlink p]
              \<and> fst (transcribe_audio_dual e audio language engine w)
                = (case run_engine ''Fallback engine'' e (FALLBACK_ENGINE e) p language
                          (staged w p) of
                     (Inr result, w2) \<Rightarrow>
                       Inr (JObj (dict_set
                              (dict_set result ''engine_used''
                                 (JStr (FALLBACK_ENGINE e @ '' (fallback)'')))
                              ''primary_engine_error''
                              (JStr (''Engine '' @ s @ '' not available''))))
                   | (Inl fallback_error, w2) \<Rightarrow>
                       Inl (HTTPException 500
                              (''Both engines failed. Primary: ''
                                 @ (''Engine '' @ s @ '' not available'')
                                 @ '', Fallback: '' @ fallback_error)))
         else trace (snd (transcribe_audio_dual e audio language engine w))
                = trace w @ [CreateTemp p, Unlink p]
              \<and> fst (transcribe_audio_dual e audio language engine w)
                = Inl (HTTPException 500
                        (if ENABLE_DUAL_ENGINE e \<and> FALLBACK_ENGINE e \<noteq> []
                         then ''Both engines failed. Primary: ''
                                @ (''Engine '' @ s @ '' not available'')
                                @ '', Fallback: ''
                                @ (''Fallback engine '' @ FALLBACK_ENGINE e @ '' not available'')
                         else ''Transcription failed: ''
                                @ (''Engine '' @ s @ '' not available'')))"
proof (cases "ENABLE_DUAL_ENGINE e \<and> is_available e (FALLBACK_ENGINE e)")
  case True
  then have ne: "FALLBACK_ENGINE e \<noteq> []" using is_available_nonempty by blast
  obtain r2 w2 where
    f: "run_engine ''Fallback engine'' e (FALLBACK_ENGINE e) p language (staged w p) = (r2, w2)"
    by (cases "run_engine ''Fallback engine'' e (FALLBACK_ENGINE e) p language (staged w p)")
  from True have tr: "trace w2 = trace w @ [CreateTemp p, call_of (FALLBACK_ENGINE e) p language]"
    using trace_run_engine_available
      [of e "FALLBACK_ENGINE e" "''Fallback engine''" p language "staged w p"] f
    by simp
  have fl: "files w2 = insert p (files w)"
    using files_run_engine [of "''Fallback engine''" e "FALLBACK_ENGINE e" p language "staged w p"] f
    by simp
  show ?thesis
    using True tr fl f
    by (cases r2)
       (simp_all add: dual_staged_unfold [OF assms(1-6)]
         primary_unavailable_fallback [OF assms(7) _ ne f] trace_finally_unlink)
next
  case False
  have "trace (snd (transcribe_audio_dual e audio language engine w))
          = trace w @ [CreateTemp p, Unlink p]
        \<and> fst (transcribe_audio_dual e audio language engine w)
          = Inl (HTTPException 500
                  (if ENABLE_DUAL_ENGINE e \<and> FALLBACK_ENGINE e \<noteq> []
                   then ''Both engines failed. Primary: ''
                          @ (''Engine '' @ s @ '' not available'')
                          @ '', Fallback: ''
                          @ (''Fallback engine '' @ FALLBACK_ENGINE e @ '' not available'')
                   else ''Transcription failed: ''
                          @ (''Engine '' @ s @ '' not available'')))"
  proof (cases "ENABLE_DUAL_ENGINE e \<and> FALLBACK_ENGINE e \<noteq> []")
    case True
    with False have na: "\<not> is_available e (FALLBACK_ENGINE e)" by simp
    have f: "run_engine ''Fallback engine'' e (FALLBACK_ENGINE e) p language (staged w p)
               = (Inl (''Fallback engine'' @ '' '' @ FALLBACK_ENGINE e @ '' not available''),
                  staged w p)"
      using na by (rule run_engine_unavailable)
    show ?thesis
      using True
      by (simp add: dual_staged_unfold [OF assms(1-6)]
          primary_unavailable_fallback [OF assms(7) _ _ f] trace_finally_unlink)
  next
    case False
    then show ?thesis
      by (simp add: dual_staged_unfold [OF assms(1-6)]
          primary_unavailable_no_fallback [OF assms(7) False] trace_finally_unlink)
  qed
  with False show ?thesis by simp
qed

text \<open>
  C5, as stated, fails: with the local engine unavailable, a request to
  \<^verbatim>\<open>server_dual.py\<close> for \<^verbatim>\<open>engine="local"\<close> is served by the OpenAI engine as
  fallback and answered with a body (200), not with 503.
\<close>

theorem explicit_unavailable_falls_back_counterexample:
  "transcribe_audio_dual (env0\<lparr>whisper_model := False\<rparr>) wav ''auto'' ''local'' w_init
     = (Inr (JObj [(''text'', JStr ''hello''),
                   (''language_detected'', JStr ''auto-detected''),
                   (''confidence'', JStr ''N/A''),
                   (''engine'', JStr ''openai_whisper''),
                   (''model'', JStr ''whisper-1''),
                   (''engine_used'', JStr ''openai_whisper (fallback)''),
                   (''primary_engine_error'', JStr ''Engine local_whisper not available'')]),
        \<lparr>files = {},
         trace = [CreateTemp ''/tmp/tmpa.wav'', CallOpenAI ''/tmp/tmpa.wav'' None,
                  Unlink ''/tmp/tmpa.wav'']\<rparr>)"
  by (simp add: transcribe_audio_dual_def select_engine_def open_temp_def finally_unlink_def
      primary_then_fallback_def run_engine_def transcribe_with_openai_def dict_set_def
      strip_def isspace_def env0_def wav_def w_init_def)

text \<open>
  C5, amended. A staged request to \<^verbatim>\<open>server_dual.py\<close> that names an engine which is
  not available is never answered with 503, and the named engine is not called. If the
  dual engine is enabled and the fallback engine is available, the fallback engine is
  called, once, as under \<^verbatim>\<open>auto\<close>: if it returns, the answer is its result (200) with
  \<^verbatim>\<open>engine_used\<close> set to \<^verbatim>\<open>"<fallback> (fallback)"\<close> and \<^verbatim>\<open>primary_engine_error\<close> set
  to \<^verbatim>\<open>"Engine <name>_whisper not available"\<close>; if it raises \<open>m'\<close>, the answer is 500
  \<^verbatim>\<open>"Both engines failed. Primary: Engine <name>_whisper not available, Fallback: m'"\<close>.
  Otherwise no engine is called and the answer is 500, with the detail
  \<^verbatim>\<open>"Transcription failed: Engine <name>_whisper not available"\<close> when the fallback is
  off and \<^verbatim>\<open>"Both engines failed. ..., Fallback: Fallback engine <fallback> not available"\<close>
  when it is on but not available.
\<close>

theorem explicit_unavailable_engine:
  assumes "content_type audio = Some ct" "prefix ''audio/'' ct" "filename audio = Some name"
    and "NamedTemporaryFile e name = Inr p" "copyfileobj e = None"
    and "engine \<noteq> ''auto''" "\<not> is_available e (engine @ ''_whisper'')"
  shows "(\<forall>d. fst (transcribe_audio_dual e audio language engine w) \<noteq> Inl (HTTPException 503 d))
       \<and> (if ENABLE_DUAL_ENGINE e \<and> is_available e (FALLBACK_ENGINE e)
          then trace (snd (transcribe_audio_dual e audio language engine w))
                 = trace w @ [CreateTemp p, call_of (FALLBACK_ENGINE e) p language, Unlink p]
               \<and> fst (transcribe_audio_dual e audio language engine w)
                 = (case run_engine ''Fallback engine'' e (FALLBACK_ENGINE e) p language
                           (staged w p) of
                      (Inr result, w2) \<Rightarrow>
                        Inr (JObj (dict_set
                               (dict_set result ''engine_used''
                                  (JStr (FALLBACK_ENGINE e @ '' (fallback)'')))
                               ''primary_engine_error''
                               (JStr (''Engine '' @ (engine @ ''_whisper'') @ '' not available''))))
                    | (Inl fallback_error, w2) \<Rightarrow>
                        Inl (HTTPException 500
                               (''Both engines failed. Primary: ''
                                  @ (''Engine '' @ (engine @ ''_whisper'') @ '' not available'')
                                  @ '', Fallback: '' @ fallback_error)))
          else trace (snd (transcribe_audio_dual e audio language engine w))
                 = trace w @ [CreateTemp p, Unlink p]
               \<and> fst (transcribe_audio_dual e audio language engine w)
                 = Inl (HTTPException 500
                         (if ENABLE_DUAL_ENGINE e \<and> FALLBACK_ENGINE e \<noteq> []
                          then ''Both engines failed. Primary: ''
                                 @ (''Engine '' @ (engine @ ''_whisper'') @ '' not available'')
                                 @ '', Fallback: ''
                                 @ (''Fallback engine '' @ FALLBACK_ENGINE e @ '' not available'')
                          else ''Transcription failed: ''
                                 @ (''Engine '' @ (engine @ ''_whisper'') @ '' not available''))))"
proof -
  note sel = select_engine_explicit [OF assms(6), of e]
  note out = unavailable_selected_exact [OF assms(1-5) sel assms(7), of language w]
  have no503:
    "\<forall>d. fst (transcribe_audio_dual e audio language engine w) \<noteq> Inl (HTTPException 503 d)"
  proof (cases "ENABLE_DUAL_ENGINE e \<and> is_available e (FALLBACK_ENGINE e)")
    case True
    with out show ?thesis by (auto split: prod.splits sum.splits)
  next
    case False
    with out show ?thesis by auto
  qed
  from no503 out show ?thesis by (rule conjI)
qed

theorem explicit_unavailable_engine_witness:
  "content_type wav = Some ''audio/wav'' \<and> prefix ''audio/'' ''audio/wav''
   \<and> filename wav = Some ''a.wav''
   \<and> NamedTemporaryFile (env0\<lparr>whisper_model := False\<rparr>) ''a.wav'' = Inr ''/tmp/tmpa.wav''
   \<and> copyfileobj (env0\<lparr>whisper_model := False\<rparr>) = None
   \<and> ''local'' \<noteq> ''auto''
   \<and> \<not> is_available (env0\<lparr>whisper_model := False\<rparr>) (''local'' @ ''_whisper'')
   \<and> ENABLE_DUAL_ENGINE (env0\<lparr>whisper_model := False\<rparr>)
   \<and> is_available (env0\<lparr>whisper_model := False\<rparr>) (FALLBACK_ENGINE (env0\<lparr>whisper_model := False\<rparr>))
   \<and> (\<forall>d. fst (transcribe_audio_dual (env0\<lparr>whisper_model := False\<rparr>) wav ''en-IN'' ''local'' w_init)
            \<noteq> Inl (HTTPException 503 d))
   \<and> trace (snd (transcribe_audio_dual (env0\<lparr>whisper_model := False\<rparr>) wav ''en-IN'' ''local'' w_init))
       = [CreateTemp ''/tmp/tmpa.wav'', CallOpenAI ''/tmp/tmpa.wav'' (Some ''en-IN''),
          Unlink ''/tmp/tmpa.wav'']
   \<and> fst (transcribe_audio_dual (env0\<lparr>whisper_model := False\<rparr>) wav ''en-IN'' ''local'' w_init)
       = Inr (JObj [(''text'', JStr ''hello''),
                    (''language_detected'', JStr ''en-IN''),
                    (''confidence'', JStr ''N/A''),
                    (''engine'', JStr ''openai_whisper''),
                    (''model'', JStr ''whisper-1''),
                    (''engine_used'', JStr ''openai_whisper (fallback)''),
                    (''primary_engine_error'', JStr ''Engine local_whisper not available'')])"
  using explicit_unavailable_engine
    [where audio = wav and ct = "''audio/wav''" and name = "''a.wav''"
       and e = "env0\<lparr>whisper_model := False\<rparr>" and p = "''/tmp/tmpa.wav''"
       and engine = "''local''" and language = "''en-IN''" and w = w_init]
  by (simp add: env0_def wav_def w_init_def is_available_def call_of_def run_engine_def
      transcribe_with_openai_def dict_set_def strip_def isspace_def)

section \<open>An engine name that does not exist\<close>

text \<open>\<^verbatim>\<open>server.py\<close> does not check the value of \<^verbatim>\<open>engines\<close> either: for a value other
  than \<^verbatim>\<open>both\<close>, \<^verbatim>\<open>local\<close> and \<^verbatim>\<open>openai\<close> it stages the payload, calls no engine and
  answers with an empty mapping.\<close>

lemma server_unknown_engines_empty_mapping:
  assumes "content_type audio = Some ct" "prefix ''audio/'' ct" "filename audio = Some name"
    and "NamedTemporaryFile e name = Inr p" "copyfileobj e = None"
    and "whisper_model e" "engines \<notin> {''both'', ''local'', ''openai''}"
  shows "fst (transcribe_audio e audio language engines w)
           = Inr (JObj [(''engines'', JObj []), (''dual_mode'', JBool True),
                        (''filename'', JStr name)])
       \<and> trace (snd (transcribe_audio e audio language engines w))
           = trace w @ [CreateTemp p, Unlink p]"
  using assms
  by (simp add: transcribe_audio_def open_temp_def transcribe_both_def local_step_def
      openai_step_def response_def trace_finally_unlink Let_def)

text \<open>
  C6, as stated, fails: a request to \<^verbatim>\<open>server_dual.py\<close> for the engine \<^verbatim>\<open>"azure"\<close> is
  staged, handed to the fallback engine and answered with a body (200).
\<close>

theorem unknown_engine_staged_counterexample:
  "transcribe_audio_dual env0 wav ''auto'' ''azure'' w_init
     = (Inr (JObj [(''text'', JStr ''hello''),
                   (''language_detected'', JStr ''auto-detected''),
                   (''confidence'', JStr ''N/A''),
                   (''engine'', JStr ''openai_whisper''),
                   (''model'', JStr ''whisper-1''),
                   (''engine_used'', JStr ''openai_whisper (fallback)''),
                   (''primary_engine_error'', JStr ''Engine azure_whisper not available'')]),
        \<lparr>files = {},
         trace = [CreateTemp ''/tmp/tmpa.wav'', CallOpenAI ''/tmp/tmpa.wav'' None,
                  Unlink ''/tmp/tmpa.wav'']\<rparr>)"
  by (simp add: transcribe_audio_dual_def select_engine_def open_temp_def finally_unlink_def
      primary_then_fallback_def run_engine_def transcribe_with_openai_def dict_set_def
      strip_def isspace_def env0_def wav_def w_init_def)

text \<open>
  C6, amended. \<^verbatim>\<open>server_dual.py\<close> does not validate the engine name. A request that
  names anything other than \<^verbatim>\<open>auto\<close>, \<^verbatim>\<open>local\<close> and \<^verbatim>\<open>openai\<close>, and whose content
  type and staging are in order, is never answered with 400: the payload is staged and
  removed again, and the name is treated as an engine that is not available. If the dual
  engine is enabled and the fallback is available, the fallback engine is called once
  and the answer is its result (200), marked as fallback, or 500 naming both errors if
  it raises. Otherwise no engine is called and the answer is 500.
\<close>

theorem unknown_engine_not_rejected:
  assumes "content_type audio = Some ct" "prefix ''audio/'' ct" "filename audio = Some name"
    and "NamedTemporaryFile e name = Inr p" "copyfileobj e = None"
    and "engine \<notin> {''auto'', ''local'', ''openai''}"
  shows "(\<forall>d. fst (transcribe_audio_dual e audio language engine w) \<noteq> Inl (HTTPException 400 d))
       \<and> p \<notin> files (snd (transcribe_audio_dual e audio language engine w))
       \<and> (if ENABLE_DUAL_ENGINE e \<and> is_available e (FALLBACK_ENGINE e)
          then trace (snd (transcribe_audio_dual e audio language engine w))
                 = trace w @ [CreateTemp p, call_of (FALLBACK_ENGINE e) p language, Unlink p]
               \<and> fst (transcribe_audio_dual e audio language engine w)
                 = (case run_engine ''Fallback engine'' e (FALLBACK_ENGINE e) p language
                           (staged w p) of
                      (Inr result, w2) \<Rightarrow>
                        Inr (JObj (dict_set
                               (dict_set result ''engine_used''
                                  (JStr (FALLBACK_ENGINE e @ '' (fallback)'')))
                               ''primary_engine_error''
                               (JStr (''Engine '' @ (engine @ ''_whisper'') @ '' not available''))))
                    | (Inl fallback_error, w2) \<Rightarrow>
                        Inl (HTTPException 500
                               (''Both engines failed. Primary: ''
                                  @ (''Engine '' @ (engine @ ''_whisper'') @ '' not available'')
                                  @ '', Fallback: '' @ fallback_error)))
          else trace (snd (transcribe_audio_dual e audio language engine w))
                 = trace w @ [CreateTemp p, Unlink p]
               \<and> fst (transcribe_audio_dual e audio language engine w)
                 = Inl (HTTPException 500
                         (if ENABLE_DUAL_ENGINE e \<and> FALLBACK_ENGINE e \<noteq> []
                          then ''Both engines failed. Primary: ''
                                 @ (''Engine '' @ (engine @ ''_whisper'') @ '' not available'')
                                 @ '', Fallback: ''
                                 @ (''Fallback engine '' @ FALLBACK_ENGINE e @ '' not available'')
                          else ''Transcription failed: ''
                                 @ (''Engine '' @ (engine @ ''_whisper'') @ '' not available''))))"
proof -
  from assms(6) have ne: "engine \<noteq> ''auto''" and un: "engine \<notin> {''local'', ''openai''}"
    by auto
  note sel = select_engine_explicit [OF ne, of e]
  note na = unknown_engine_unavailable [OF un, of e]
  note out = unavailable_selected_exact [OF assms(1-5) sel na, of language w]
  have no400:
    "\<forall>d. fst (transcribe_audio_dual e audio language engine w) \<noteq> Inl (HTTPException 400 d)"
  proof (cases "ENABLE_DUAL_ENGINE e \<and> is_available e (FALLBACK_ENGINE e)")
    case True
    with out show ?thesis by (auto split: prod.splits sum.splits)
  next
    case False
    with out show ?thesis by auto
  qed
  have gone: "p \<notin> files (snd (transcribe_audio_dual e audio language engine w))"
    using dual_staged_file_deleted [OF assms(1-5) sel] .
  from no400 gone out show ?thesis by (intro conjI)
qed

theorem unknown_engine_not_rejected_witness:
  "content_type wav = Some ''audio/wav'' \<and> prefix ''audio/'' ''audio/wav''
   \<and> filename wav = Some ''a.wav''
   \<and> NamedTemporaryFile env_openai_fails ''a.wav'' = Inr ''/tmp/tmpa.wav''
   \<and> copyfileobj env_openai_fails = None
   \<and> ''azure'' \<notin> {''auto'', ''local'', ''openai''}
   \<and> ENABLE_DUAL_ENGINE env_openai_fails
   \<and> is_available env_openai_fails (FALLBACK_ENGINE env_openai_fails)
   \<and> (\<forall>d. fst (transcribe_audio_dual env_openai_fails wav ''auto'' ''azure'' w_init)
            \<noteq> Inl (HTTPException 400 d))
   \<and> ''/tmp/tmpa.wav''
       \<notin> files (snd (transcribe_audio_dual env_openai_fails wav ''auto'' ''azure'' w_init))
   \<and> trace (snd (transcribe_audio_dual env_openai_fails wav ''auto'' ''azure'' w_init))
       = [CreateTemp ''/tmp/tmpa.wav'', CallOpenAI ''/tmp/tmpa.wav'' None,
          Unlink ''/tmp/tmpa.wav'']
   \<and> fst (transcribe_audio_dual env_openai_fails wav ''auto'' ''azure'' w_init)
       = Inl (HTTPException 500
           ''Both engines failed. Primary: Engine azure_whisper not available, Fallback: Connection error.'')"
  using unknown_engine_not_rejected
    [where audio = wav and ct = "''audio/wav''" and name = "''a.wav''"
       and e = env_openai_fails and p = "''/tmp/tmpa.wav''"
       and engine = "''azure''" and language = "''auto''" and w = w_init]
  by (simp add: env_openai_fails_def env0_def wav_def w_init_def is_available_def call_of_def
      run_engine_def transcribe_with_openai_def)

section \<open>Fallback under \<^verbatim>\<open>auto\<close>\<close>

text \<open>
  C8, as stated, fails: under \<^verbatim>\<open>auto\<close>, with the fallback configured and available,
  the primary engine raises and then the fallback engine raises as well; the answer is a
  500 and no result marked as fallback.
\<close>

theorem auto_fallback_fails_counterexample:
  "select_engine env_failing ''auto'' = Inr ''local_whisper''
   \<and> ENABLE_DUAL_ENGINE env_failing
   \<and> is_available env_failing (FALLBACK_ENGINE env_failing)
   \<and> transcribe_audio_dual env_failing wav ''auto'' ''auto'' w_init
       = (Inl (HTTPException 500
            ''Both engines failed. Primary: CUDA out of memory, Fallback: Connection error.''),
          \<lparr>files = {},
           trace = [CreateTemp ''/tmp/tmpa.wav'', CallLocal ''/tmp/tmpa.wav'' None,
                    CallOpenAI ''/tmp/tmpa.wav'' None, Unlink ''/tmp/tmpa.wav'']\<rparr>)"
  by (simp add: transcribe_audio_dual_def select_engine_def open_temp_def finally_unlink_def
      primary_then_fallback_def run_engine_def transcribe_with_openai_def
      transcribe_with_local_whisper_def options_language_def is_available_def
      env_failing_def env0_def wav_def w_init_def)

text \<open>
  C8, amended. Under \<^verbatim>\<open>auto\<close> in \<^verbatim>\<open>server_dual.py\<close>, when the attempt with the selected
  engine raises with message \<open>m\<close> and the fallback is enabled and available: if the
  fallback attempt returns, the body has \<^verbatim>\<open>engine_used\<close> equal to
  \<^verbatim>\<open>"<fallback> (fallback)"\<close> and \<^verbatim>\<open>primary_engine_error\<close> equal to \<open>m\<close>; if it raises
  with message \<open>m'\<close>, the answer is a 500 with detail
  \<^verbatim>\<open>"Both engines failed. Primary: m, Fallback: m'"\<close>.
\<close>

theorem auto_fallback_marks_result:
  assumes "content_type audio = Some ct" "prefix ''audio/'' ct" "filename audio = Some name"
    and "NamedTemporaryFile e name = Inr p" "copyfileobj e = None"
    and "select_engine e ''auto'' = Inr s"
    and "run_engine ''Engine'' e s p language (staged w p) = (Inl m, w1)"
    and "ENABLE_DUAL_ENGINE e" "is_available e (FALLBACK_ENGINE e)"
  shows "case run_engine ''Fallback engine'' e (FALLBACK_ENGINE e) p language w1 of
           (Inr result, w2) \<Rightarrow>
             (\<exists>body. fst (transcribe_audio_dual e audio language ''auto'' w) = Inr (JObj body)
                \<and> map_of body ''engine_used'' = Some (JStr (FALLBACK_ENGINE e @ '' (fallback)''))
                \<and> map_of body ''primary_engine_error'' = Some (JStr m))
         | (Inl fallback_error, w2) \<Rightarrow>
             fst (transcribe_audio_dual e audio language ''auto'' w)
               = Inl (HTTPException 500
                       (''Both engines failed. Primary: '' @ m
                          @ '', Fallback: '' @ fallback_error))"
proof -
  have ne: "FALLBACK_ENGINE e \<noteq> []" using assms(9) by (rule is_available_nonempty)
  show ?thesis
    using assms(7,8) ne
    by (simp add: dual_staged_unfold [OF assms(1-6)] primary_then_fallback_def map_of_dict_set
        split: prod.splits sum.splits)
qed

theorem auto_fallback_marks_result_witness:
  "content_type wav = Some ''audio/wav'' \<and> prefix ''audio/'' ''audio/wav''
   \<and> filename wav = Some ''a.wav''
   \<and> NamedTemporaryFile env_local_fails ''a.wav'' = Inr ''/tmp/tmpa.wav''
   \<and> copyfileobj env_local_fails = None
   \<and> select_engine env_local_fails ''auto'' = Inr ''local_whisper''
   \<and> run_engine ''Engine'' env_local_fails ''local_whisper'' ''/tmp/tmpa.wav'' ''auto''
         (staged w_init ''/tmp/tmpa.wav'')
       = (Inl ''CUDA out of memory'',
          \<lparr>files = {''/tmp/tmpa.wav''},
           trace = [CreateTemp ''/tmp/tmpa.wav'', CallLocal ''/tmp/tmpa.wav'' None]\<rparr>)
   \<and> ENABLE_DUAL_ENGINE env_local_fails
   \<and> is_available env_local_fails (FALLBACK_ENGINE env_local_fails)
   \<and> (\<exists>body. fst (transcribe_audio_dual env_local_fails wav ''auto'' ''auto'' w_init)
                = Inr (JObj body)
          \<and> map_of body ''engine_used'' = Some (JStr ''openai_whisper (fallback)'')
          \<and> map_of body ''primary_engine_error'' = Some (JStr ''CUDA out of memory''))"
proof -
  have h7: "run_engine ''Engine'' env_local_fails ''local_whisper'' ''/tmp/tmpa.wav'' ''auto''
         (staged w_init ''/tmp/tmpa.wav'')
       = (Inl ''CUDA out of memory'',
          \<lparr>files = {''/tmp/tmpa.wav''},
           trace = [CreateTemp ''/tmp/tmpa.wav'', CallLocal ''/tmp/tmpa.wav'' None]\<rparr>)"
    by (simp add: run_engine_def transcribe_with_local_whisper_def options_language_def
        env_local_fails_def env0_def w_init_def)
  have h6: "select_engine env_local_fails ''auto'' = Inr ''local_whisper''"
    by (simp add: select_engine_def env_local_fails_def env0_def)
  have h9: "is_available env_local_fails (FALLBACK_ENGINE env_local_fails)"
    by (simp add: is_available_def env_local_fails_def env0_def)
  have hs: "content_type wav = Some ''audio/wav''" "prefix ''audio/'' ''audio/wav''"
    "filename wav = Some ''a.wav''"
    "NamedTemporaryFile env_local_fails ''a.wav'' = Inr ''/tmp/tmpa.wav''"
    "copyfileobj env_local_fails = None" "ENABLE_DUAL_ENGINE env_local_fails"
    by (simp_all add: wav_def env_local_fails_def env0_def)
  have fb: "run_engine ''Fallback engine'' env_local_fails ''openai_whisper''
              ''/tmp/tmpa.wav'' ''auto''
              \<lparr>files = {''/tmp/tmpa.wav''},
               trace = [CreateTemp ''/tmp/tmpa.wav'', CallLocal ''/tmp/tmpa.wav'' None]\<rparr>
        = (Inr [(''text'', JStr ''hello''), (''language_detected'', JStr ''auto-detected''),
                (''confidence'', JStr ''N/A''), (''engine'', JStr ''openai_whisper''),
                (''model'', JStr ''whisper-1'')],
           \<lparr>files = {''/tmp/tmpa.wav''},
            trace = [CreateTemp ''/tmp/tmpa.wav'', CallLocal ''/tmp/tmpa.wav'' None,
                     CallOpenAI ''/tmp/tmpa.wav'' None]\<rparr>)"
    by (simp add: run_engine_def transcribe_with_openai_def strip_def isspace_def
        env_local_fails_def env0_def)
  have fe: "FALLBACK_ENGINE env_local_fails = ''openai_whisper''"
    by (simp add: env_local_fails_def env0_def)
  from auto_fallback_marks_result [OF hs(1-5) h6 h7 hs(6) h9]
  have "\<exists>body. fst (transcribe_audio_dual env_local_fails wav ''auto'' ''auto'' w_init)
                = Inr (JObj body)
          \<and> map_of body ''engine_used'' = Some (JStr ''openai_whisper (fallback)'')
          \<and> map_of body ''primary_engine_error'' = Some (JStr ''CUDA out of memory'')"
    by (simp add: fb fe)
  with hs h6 h7 h9 show ?thesis by simp
qed

end
